theory Spec2Isabelle
  imports Complex_Main
begin

section \<open>Modelling conventions\<close>

text \<open>
  The development embeds the trip planner of the repository: the stop planner
  (\<^verbatim>\<open>services/route_service.py\<close>, \<^verbatim>\<open>utils/helpers.py\<close>), the ELD log builder
  (\<^verbatim>\<open>services/eld_service.py\<close>, \<^verbatim>\<open>utils/data_classes.py\<close>), the HOS calculator
  (\<^verbatim>\<open>services/hos_calculator.py\<close>) and the request handler (\<^verbatim>\<open>api/views.py\<close>).

  \<^item> A Python \<^verbatim>\<open>float\<close> is a \<^typ>\<open>real\<close>: arithmetic is exact, rounding of binary
    floating point is not modelled.  A Python \<^verbatim>\<open>int\<close> is an \<^typ>\<open>int\<close>.
  \<^item> A \<^verbatim>\<open>datetime\<close> is the number of microseconds since a fixed epoch (an
    \<^typ>\<open>int\<close>, the resolution of Python's \<^verbatim>\<open>datetime\<close>); a \<^verbatim>\<open>date\<close> is the number of
    days since that epoch.  The range limits of \<^verbatim>\<open>datetime\<close> (years 1 to 9999) are not
    modelled.
  \<^item> Every call of \<^verbatim>\<open>datetime.now()\<close> is a parameter of the function that makes it.
  \<^item> A coordinate \<^verbatim>\<open>[lon, lat]\<close> is a pair \<open>(lon, lat)\<close>: the only producer of
    \<^verbatim>\<open>RouteData.coordinates\<close> (\<^verbatim>\<open>_calculate_multi_stop_route\<close>) builds two-element lists.
  \<^item> Exceptions are values of type \<open>error\<close>; a function that can raise returns
    \<open>error + 'a\<close>.
  \<^item> Record fields keep the source's names; where two classes share a field name the
    field is prefixed (\<open>stop_duration\<close>, \<open>entry_duration\<close>, \<open>hos_cycle_used\<close>).
\<close>

datatype error = IndexError | ValueError string | Exception string

section \<open>Dates and times\<close>

type_synonym datetime = int
type_synonym date = int

definition US_PER_DAY :: int where
  "US_PER_DAY = 86400000000"

definition US_PER_HOUR :: real where
  "US_PER_HOUR = 3600000000"

text \<open>\<^verbatim>\<open>dt.date()\<close>\<close>

definition date_of :: "datetime \<Rightarrow> date" where
  "date_of t = t div US_PER_DAY"

text \<open>Python's \<^verbatim>\<open>round\<close>: to the nearest integer, ties to the even one.\<close>

definition py_round :: "real \<Rightarrow> int" where
  "py_round x =
     (let f = \<lfloor>x\<rfloor>; r = x - of_int f
      in if r < 1 / 2 then f
         else if 1 / 2 < r then f + 1
         else if even f then f else f + 1)"

text \<open>
  \<^verbatim>\<open>timedelta(hours=h)\<close>, in microseconds: the constructor rounds the fractional
  microseconds with \<^verbatim>\<open>round\<close>.
\<close>

definition timedelta_hours :: "real \<Rightarrow> int" where
  "timedelta_hours h = py_round (h * US_PER_HOUR)"

text \<open>\<^verbatim>\<open>timedelta(days=d)\<close> for an integer \<open>d\<close>.\<close>

definition timedelta_days :: "int \<Rightarrow> int" where
  "timedelta_days d = d * US_PER_DAY"

text \<open>\<^verbatim>\<open>datetime.combine(d, datetime.max.time())\<close>: 23:59:59.999999 of day \<open>d\<close>.\<close>

definition combine_max :: "date \<Rightarrow> datetime" where
  "combine_max d = d * US_PER_DAY + (US_PER_DAY - 1)"

text \<open>\<^verbatim>\<open>datetime.combine(d, datetime.min.time())\<close>: 00:00:00 of day \<open>d\<close>.\<close>

definition combine_min :: "date \<Rightarrow> datetime" where
  "combine_min d = d * US_PER_DAY"

text \<open>\<^verbatim>\<open>(a - b).total_seconds() / 3600\<close>\<close>

definition hours_between :: "datetime \<Rightarrow> datetime \<Rightarrow> real" where
  "hours_between a b = of_int (a - b) / 1000000 / 3600"

section \<open>Number formatting\<close>

text \<open>Decimal digits of a natural number.\<close>

fun digits :: "nat \<Rightarrow> string" where
  "digits n =
     (if n < 10 then [''0123456789'' ! n]
      else digits (n div 10) @ [''0123456789'' ! (n mod 10)])"

declare digits.simps [simp del]

text \<open>The format specifications \<^verbatim>\<open>:.0f\<close> and \<^verbatim>\<open>:.1f\<close>.\<close>

definition format_0f :: "real \<Rightarrow> string" where
  "format_0f x = (if x < 0 then ''-'' else []) @ digits (nat \<bar>py_round x\<bar>)"

definition format_1f :: "real \<Rightarrow> string" where
  "format_1f x =
     (let a = nat \<bar>py_round (x * 10)\<bar>
      in (if x < 0 then ''-'' else []) @ digits (a div 10) @ ''.'' @ digits (a mod 10))"

section \<open>Constants (\<^verbatim>\<open>utils/constants.py\<close>)\<close>

definition DAILY_DRIVE_LIMIT :: int where "DAILY_DRIVE_LIMIT = 11"
definition DAILY_DUTY_LIMIT :: int where "DAILY_DUTY_LIMIT = 14"
definition WEEKLY_LIMIT :: int where "WEEKLY_LIMIT = 70"
definition CYCLE_DAYS :: int where "CYCLE_DAYS = 8"

definition DRIVING :: string where "DRIVING = ''driving''"
definition ON_DUTY :: string where "ON_DUTY = ''on_duty''"
definition SLEEPER :: string where "SLEEPER = ''sleeper''"
definition OFF_DUTY :: string where "OFF_DUTY = ''off_duty''"

definition AVERAGE_SPEED :: real where "AVERAGE_SPEED = 55"
definition PICKUP_DURATION :: real where "PICKUP_DURATION = 1"
definition DROPOFF_DURATION :: real where "DROPOFF_DURATION = 1"
definition FUEL_STOP_DURATION :: real where "FUEL_STOP_DURATION = 1 / 2"

definition CYCLE_EXCEEDED :: string where
  "CYCLE_EXCEEDED = ''Weekly cycle limit exceeded''"

section \<open>Data classes (\<^verbatim>\<open>utils/data_classes.py\<close>)\<close>

record TripRequest =
  current_location :: string
  pickup_location :: string
  dropoff_location :: string
  cycle_used :: int

text \<open>The constructor with its \<^verbatim>\<open>__post_init__\<close> check.\<close>

definition new_TripRequest :: "string \<Rightarrow> string \<Rightarrow> string \<Rightarrow> int \<Rightarrow> error + TripRequest" where
  "new_TripRequest cur pick dropoff c =
     (if \<not> (0 \<le> c \<and> c \<le> 70)
      then Inl (ValueError ''Cycle used must be between 0 and 70 hours'')
      else Inr \<lparr>current_location = cur, pickup_location = pick,
                dropoff_location = dropoff, cycle_used = c\<rparr>)"

record Location =
  address :: string
  latitude :: real
  longitude :: real

record Stop =
  stop_type :: string
  location :: Location
  time :: datetime
  stop_duration :: real
  description :: string

record RouteData =
  distance :: real
  duration :: real
  coordinates :: "(real \<times> real) list"

record ELDEntry =
  status :: string
  start_time :: datetime
  end_time :: datetime
  entry_location :: string
  entry_duration :: real

record DailyLog =
  log_date :: date
  entries :: "ELDEntry list"
  total_drive_time :: real
  total_duty_time :: real

text \<open>\<^verbatim>\<open>DailyLog(date=d)\<close>: the other fields take their defaults.\<close>

definition new_DailyLog :: "date \<Rightarrow> DailyLog" where
  "new_DailyLog d = \<lparr>log_date = d, entries = [], total_drive_time = 0, total_duty_time = 0\<rparr>"

definition add_entry :: "DailyLog \<Rightarrow> ELDEntry \<Rightarrow> DailyLog" where
  "add_entry dlog entry =
     (let log1 = dlog\<lparr>entries := entries dlog @ [entry]\<rparr>;
          log2 = (if status entry = ''driving''
                  then log1\<lparr>total_drive_time := total_drive_time log1 + entry_duration entry\<rparr>
                  else log1)
      in if status entry \<in> set [''driving'', ''on_duty'']
         then log2\<lparr>total_duty_time := total_duty_time log2 + entry_duration entry\<rparr>
         else log2)"

record HOSStatus =
  hos_cycle_used :: int
  remaining_hours :: int
  drive_time_today :: real
  duty_time_today :: real
  next_reset :: datetime
  violations :: "string list"

section \<open>Helpers (\<^verbatim>\<open>utils/helpers.py\<close>)\<close>

text \<open>
  The loop of \<^verbatim>\<open>calculate_fuel_stops\<close>, on the state \<open>(current_mile, fuel_stops)\<close>.
\<close>

function fuel_stops_loop :: "real \<Rightarrow> real \<Rightarrow> real list \<Rightarrow> real list" where
  "fuel_stops_loop route_distance current_mile fuel_stops =
     (if current_mile < route_distance
      then fuel_stops_loop route_distance (current_mile + 1000)
             (if current_mile + 1000 < route_distance
              then fuel_stops @ [current_mile + 1000] else fuel_stops)
      else fuel_stops)"
  by pat_completeness auto
termination
proof (relation "measure (\<lambda>(d, m, fs). nat \<lceil>(d - m) / 1000\<rceil>)")
  show "wf (measure (\<lambda>(d, m, fs). nat \<lceil>(d - m) / 1000\<rceil>))"
    by simp
next
  fix route_distance current_mile :: real and fuel_stops :: "real list"
  assume lt: "current_mile < route_distance"
  have e: "(route_distance - (current_mile + 1000)) / 1000 = (route_distance - current_mile) / 1000 - 1"
    by (simp add: field_simps)
  have "\<lceil>(route_distance - (current_mile + 1000)) / 1000\<rceil>
             = \<lceil>(route_distance - current_mile) / 1000\<rceil> - 1"
    unfolding e by (rule ceiling_diff_one)
  moreover have "0 < \<lceil>(route_distance - current_mile) / 1000\<rceil>"
    using lt by (simp add: ceiling_less_iff)
  ultimately show "((route_distance, current_mile + 1000,
                     if current_mile + 1000 < route_distance
                     then fuel_stops @ [current_mile + 1000] else fuel_stops),
                    (route_distance, current_mile, fuel_stops))
                   \<in> measure (\<lambda>(d, m, fs). nat \<lceil>(d - m) / 1000\<rceil>)"
    by simp
qed

declare fuel_stops_loop.simps [simp del]

definition calculate_fuel_stops :: "real \<Rightarrow> real \<Rightarrow> real list" where
  "calculate_fuel_stops route_distance start_mile = fuel_stops_loop route_distance start_mile []"

text \<open>Python's \<^verbatim>\<open>int(x)\<close> on a float: truncation towards zero.\<close>

definition py_int :: "real \<Rightarrow> int" where
  "py_int x = (if x < 0 then \<lceil>x\<rceil> else \<lfloor>x\<rfloor>)"

text \<open>
  \<^verbatim>\<open>interpolate_route_position\<close>.  On the last branch \<open>0 < mile_marker < total_distance\<close>
  and the list is not empty, so the index is between \<open>0\<close> and \<open>len - 1\<close> and the read
  is in range (lemma \<open>interpolate_index_in_range\<close>).
\<close>

definition interpolate_route_position ::
  "(real \<times> real) list \<Rightarrow> real \<Rightarrow> real \<Rightarrow> real \<times> real" where
  "interpolate_route_position coords mile_marker total_distance =
     (if coords = [] \<or> mile_marker \<le> 0
      then (if coords \<noteq> [] then coords ! 0 else (0, 0))
      else if mile_marker \<ge> total_distance
      then (if coords \<noteq> [] then last coords else (0, 0))
      else
        (let position_ratio = mile_marker / total_distance;
             index = py_int (position_ratio * of_int (int (length coords) - 1))
         in if index \<ge> int (length coords) then last coords
            else coords ! nat index))"

section \<open>The stop planner (\<^verbatim>\<open>services/route_service.py\<close>)\<close>

definition rest_stop :: "(real \<times> real) \<Rightarrow> datetime \<Rightarrow> Stop" where
  "rest_stop rest_coords current_time =
     \<lparr>stop_type = ''rest'',
      location = \<lparr>address = ''Rest Area'', latitude = snd rest_coords,
                  longitude = fst rest_coords\<rparr>,
      time = current_time,
      stop_duration = 10,
      description = ''Mandatory 10-hour rest period''\<rparr>"

text \<open>
  The \<^verbatim>\<open>while remaining_distance > 0\<close> loop of \<^verbatim>\<open>_calculate_rest_stops\<close>, on the state
  \<open>(stops, current_time, distance_traveled, driving_time, remaining_distance)\<close>; it
  returns the stops and the time at which the loop ends.
\<close>

function rest_stops_loop ::
  "RouteData \<Rightarrow> Stop list \<Rightarrow> datetime \<Rightarrow> real \<Rightarrow> real \<Rightarrow> real \<Rightarrow> Stop list \<times> datetime" where
  "rest_stops_loop route_data stops current_time distance_traveled driving_time remaining_distance =
     (if remaining_distance > 0
      then
        (let max_drive_distance = AVERAGE_SPEED * 11;
             drive_distance = min max_drive_distance remaining_distance;
             drive_time = drive_distance / AVERAGE_SPEED;
             distance_traveled1 = distance_traveled + drive_distance;
             driving_time1 = driving_time + drive_time;
             current_time1 = current_time + timedelta_hours drive_time
         in if distance_traveled1 < distance route_data
            then rest_stops_loop route_data
                   (stops @ [rest_stop (interpolate_route_position (coordinates route_data)
                                          distance_traveled1 (distance route_data))
                               current_time1])
                   (current_time1 + timedelta_hours 10)
                   distance_traveled1 driving_time1 (remaining_distance - drive_distance)
            else rest_stops_loop route_data stops current_time1
                   distance_traveled1 driving_time1 (remaining_distance - drive_distance))
      else (stops, current_time))"
  by pat_completeness auto
termination
proof -
  have dec: "\<lceil>(remaining_distance - xa) / 605\<rceil> < \<lceil>remaining_distance / 605\<rceil>"
    if pos: "0 < remaining_distance" and xa: "xa = min (AVERAGE_SPEED * 11) remaining_distance"
    for remaining_distance xa :: real
  proof (cases "remaining_distance \<le> 605")
    case True
    then have "xa = remaining_distance"
      using xa by (simp add: AVERAGE_SPEED_def)
    moreover have "0 < \<lceil>remaining_distance / 605\<rceil>"
      using pos by (simp add: ceiling_less_iff)
    ultimately show ?thesis by simp
  next
    case False
    then have m: "xa = 605"
      using xa by (simp add: AVERAGE_SPEED_def)
    have e: "(remaining_distance - 605) / 605 = remaining_distance / 605 - 1"
      by (simp add: field_simps)
    have "\<lceil>(remaining_distance - 605) / 605\<rceil> = \<lceil>remaining_distance / 605\<rceil> - 1"
      unfolding e by (rule ceiling_diff_one)
    moreover have "0 < \<lceil>remaining_distance / 605\<rceil>"
      using pos by (simp add: ceiling_less_iff)
    ultimately show ?thesis unfolding m by simp
  qed
  show ?thesis
    by (relation "measure (\<lambda>(r, s, t, dt, dr, rem). nat \<lceil>rem / 605\<rceil>)") (simp_all add: dec)
qed

declare rest_stops_loop.simps [simp del]

text \<open>
  \<^verbatim>\<open>_calculate_rest_stops\<close>; \<open>now\<close> is the value of \<^verbatim>\<open>datetime.now()\<close>.  With an empty
  coordinate list \<^verbatim>\<open>route_data.coordinates[0]\<close> raises \<^verbatim>\<open>IndexError\<close>.  The trip
  request is not read.
\<close>

definition calculate_rest_stops :: "datetime \<Rightarrow> RouteData \<Rightarrow> TripRequest \<Rightarrow> error + Stop list" where
  "calculate_rest_stops now route_data trip_request =
     (if coordinates route_data = [] then Inl IndexError
      else
        (let current_time = now;
             distance_traveled = 0;
             driving_time = 0;
             pickup_coords = (if length (coordinates route_data) > 1
                              then coordinates route_data ! 1
                              else coordinates route_data ! 0);
             stops = [\<lparr>stop_type = ''pickup'',
                       location = \<lparr>address = ''Pickup Location'', latitude = snd pickup_coords,
                                   longitude = fst pickup_coords\<rparr>,
                       time = current_time + timedelta_hours driving_time,
                       stop_duration = PICKUP_DURATION,
                       description = ''Pickup cargo''\<rparr>];
             current_time1 = current_time + timedelta_hours PICKUP_DURATION;
             remaining_distance = distance route_data;
             (stops1, current_time2) =
                rest_stops_loop route_data stops current_time1 distance_traveled driving_time
                  remaining_distance;
             dropoff_coords = (if coordinates route_data \<noteq> [] then last (coordinates route_data)
                               else (0, 0))
         in Inr (stops1 @
                 [\<lparr>stop_type = ''dropoff'',
                   location = \<lparr>address = ''Dropoff Location'', latitude = snd dropoff_coords,
                               longitude = fst dropoff_coords\<rparr>,
                   time = current_time2,
                   stop_duration = DROPOFF_DURATION,
                   description = ''Deliver cargo''\<rparr>])))"

text \<open>
  \<^verbatim>\<open>_calculate_fuel_stops\<close>; \<open>clock i\<close> is the value of the \<open>i\<close>-th call of
  \<^verbatim>\<open>datetime.now()\<close> (one call for each fuel stop, counted from \<open>0\<close>).
\<close>

definition fuel_stop :: "RouteData \<Rightarrow> datetime \<Rightarrow> real \<Rightarrow> Stop" where
  "fuel_stop route_data now mile_marker =
     (let coords = interpolate_route_position (coordinates route_data) mile_marker
                     (distance route_data)
      in \<lparr>stop_type = ''fuel'',
          location = \<lparr>address = ''Fuel Stop'', latitude = snd coords, longitude = fst coords\<rparr>,
          time = now,
          stop_duration = FUEL_STOP_DURATION,
          description = ''Fuel stop at mile '' @ format_0f mile_marker\<rparr>)"

definition calculate_fuel_stops_route :: "(nat \<Rightarrow> datetime) \<Rightarrow> RouteData \<Rightarrow> Stop list" where
  "calculate_fuel_stops_route clock route_data =
     (let fuel_mile_markers = calculate_fuel_stops (distance route_data) 0
      in map (\<lambda>(i, mile_marker). fuel_stop route_data (clock i) mile_marker)
           (zip [0..<length fuel_mile_markers] fuel_mile_markers))"

text \<open>
  The dictionary returned by \<^verbatim>\<open>calculate_route\<close>, with the keys \<^verbatim>\<open>'route'\<close>,
  \<^verbatim>\<open>'stops'\<close> and \<^verbatim>\<open>'fuel_stops'\<close>.
\<close>

record RouteResult =
  route :: RouteData
  stops :: "Stop list"
  fuel_stops :: "Stop list"

text \<open>
  \<^verbatim>\<open>calculate_route\<close>.  Steps 1 and 2 (geocoding and the routing provider) are network
  calls: their outcome for the request is the parameter \<open>provider\<close>.  Every exception
  is caught and raised again as a plain \<^verbatim>\<open>Exception\<close> that quotes its message
  (\<open>str_error\<close> is \<^verbatim>\<open>str(e)\<close>).
\<close>

fun str_error :: "error \<Rightarrow> string" where
  "str_error IndexError = ''list index out of range''"
| "str_error (ValueError msg) = msg"
| "str_error (Exception msg) = msg"

definition calculate_route ::
  "(TripRequest \<Rightarrow> error + RouteData) \<Rightarrow> datetime \<Rightarrow> (nat \<Rightarrow> datetime) \<Rightarrow> TripRequest
     \<Rightarrow> error + RouteResult" where
  "calculate_route provider now clock trip_request =
     (case provider trip_request of
        Inl e \<Rightarrow> Inl (Exception (''Route calculation failed: '' @ str_error e))
      | Inr route_data \<Rightarrow>
          (case calculate_rest_stops now route_data trip_request of
             Inl e \<Rightarrow> Inl (Exception (''Route calculation failed: '' @ str_error e))
           | Inr stops1 \<Rightarrow>
               Inr \<lparr>route = route_data, stops = stops1,
                    fuel_stops = calculate_fuel_stops_route clock route_data\<rparr>))"

section \<open>The HOS calculator (\<^verbatim>\<open>services/hos_calculator.py\<close>)\<close>

text \<open>\<^verbatim>\<open>str(i)\<close> of an integer.\<close>

definition str_int :: "int \<Rightarrow> string" where
  "str_int i = (if i < 0 then ''-'' else []) @ digits (nat \<bar>i\<bar>)"

text \<open>\<^verbatim>\<open>_calculate_estimated_duty_time\<close>: it reads the keys \<^verbatim>\<open>'route'\<close> and \<^verbatim>\<open>'stops'\<close>.\<close>

definition calculate_estimated_duty_time :: "RouteResult \<Rightarrow> real" where
  "calculate_estimated_duty_time route_data =
     (let total_duty_time =
            foldl (\<lambda>total stop.
                     if stop_type stop \<in> set [''pickup'', ''dropoff'', ''fuel'']
                     then total + stop_duration stop else total)
              (duration (route route_data)) (stops route_data)
      in min total_duty_time (of_int DAILY_DUTY_LIMIT))"

definition drive_limit_message :: "real \<Rightarrow> string" where
  "drive_limit_message drive_time =
     ''Trip requires '' @ format_1f drive_time @ '' hours of driving, exceeding daily limit of ''
       @ str_int DAILY_DRIVE_LIMIT @ '' hours''"

definition duty_limit_message :: "real \<Rightarrow> string" where
  "duty_limit_message duty_time =
     ''Trip requires '' @ format_1f duty_time @ '' hours of duty, exceeding daily limit of ''
       @ str_int DAILY_DUTY_LIMIT @ '' hours''"

definition multi_day_message :: string where
  "multi_day_message = ''Trip requires multi-day planning with mandatory rest periods''"

definition check_violations :: "TripRequest \<Rightarrow> RouteData \<Rightarrow> real \<Rightarrow> real \<Rightarrow> string list" where
  "check_violations trip_request route_d drive_time duty_time =
     (let v1 = (if of_int (cycle_used trip_request) + duty_time > of_int WEEKLY_LIMIT
                then [CYCLE_EXCEEDED] else []);
          v2 = (if drive_time > of_int DAILY_DRIVE_LIMIT
                then v1 @ [drive_limit_message drive_time] else v1);
          v3 = (if duty_time > of_int DAILY_DUTY_LIMIT
                then v2 @ [duty_limit_message duty_time] else v2)
      in if duration route_d > of_int DAILY_DRIVE_LIMIT
         then v3 @ [multi_day_message] else v3)"

text \<open>\<^verbatim>\<open>calculate_compliance\<close>; \<open>now\<close> is the value of \<^verbatim>\<open>datetime.now()\<close>.\<close>

definition calculate_compliance :: "datetime \<Rightarrow> TripRequest \<Rightarrow> RouteResult \<Rightarrow> HOSStatus" where
  "calculate_compliance now trip_request route_data =
     (let route_d = route route_data;
          remaining = WEEKLY_LIMIT - cycle_used trip_request;
          estimated_drive_time = min (duration route_d) (of_int DAILY_DRIVE_LIMIT);
          estimated_duty_time = calculate_estimated_duty_time route_data;
          reset = now + timedelta_days CYCLE_DAYS;
          vs = check_violations trip_request route_d estimated_drive_time estimated_duty_time
      in \<lparr>hos_cycle_used = cycle_used trip_request,
          remaining_hours = remaining,
          drive_time_today = estimated_drive_time,
          duty_time_today = estimated_duty_time,
          next_reset = reset,
          violations = vs\<rparr>)"

text \<open>
  The duty time of the day as the specification words it (section 4.3): the route's
  duration plus the durations of all on-duty-classified stops (pickup, dropoff, fuel)
  that the planner produced, in either of its two lists, capped at 14.  It is compared
  with \<open>duty_time_today\<close> of \<open>calculate_compliance\<close> below.
\<close>

definition spec_duty_time_today :: "RouteResult \<Rightarrow> real" where
  "spec_duty_time_today route_data =
     min (duration (route route_data)
          + sum_list (map stop_duration
               (filter (\<lambda>s. stop_type s \<in> set [''pickup'', ''dropoff'', ''fuel''])
                  (stops route_data @ fuel_stops route_data))))
         14"

section \<open>The ELD log builder (\<^verbatim>\<open>services/eld_service.py\<close>)\<close>

definition merge_and_sort_stops :: "Stop list \<Rightarrow> Stop list \<Rightarrow> Stop list" where
  "merge_and_sort_stops stops0 fuel_stops0 =
     filter (\<lambda>s. stop_type s = ''pickup'') stops0 @ fuel_stops0
       @ filter (\<lambda>s. stop_type s = ''rest'') stops0
       @ filter (\<lambda>s. stop_type s = ''dropoff'') stops0"

definition calculate_drive_time_between_stops :: "Stop \<Rightarrow> Stop \<Rightarrow> RouteData \<Rightarrow> real" where
  "calculate_drive_time_between_stops prev_stop current_stop route_d =
     (let total_stops = 5;
          segment_time = duration route_d / total_stops
      in if stop_type prev_stop = ''pickup'' then segment_time * (2 / 10)
         else if stop_type current_stop = ''dropoff'' then segment_time * (3 / 10)
         else segment_time * (5 / 10))"

text \<open>
  The day-splitting \<^verbatim>\<open>while remaining_time > 0\<close> loop.  \<^verbatim>\<open>_add_driving_entry\<close> and
  \<^verbatim>\<open>_add_stop_entry\<close> contain the same loop; they differ in the status and the location
  label of the entries, which are the parameters \<open>st\<close> and \<open>loc\<close>.  The state is
  \<open>(current_time, current_log, daily_logs, remaining_time)\<close>.
\<close>

function split_loop ::
  "string \<Rightarrow> string \<Rightarrow> datetime \<Rightarrow> DailyLog \<Rightarrow> DailyLog list \<Rightarrow> real
     \<Rightarrow> datetime \<times> DailyLog \<times> DailyLog list" where
  "split_loop st loc current_time current_log daily_logs remaining_time =
     (if remaining_time > 0
      then
        (let end_of_day = combine_max (date_of current_time);
             time_in_day = hours_between end_of_day current_time
         in if time_in_day \<ge> remaining_time
            then split_loop st loc (current_time + timedelta_hours remaining_time)
                   (add_entry current_log
                      \<lparr>status = st, start_time = current_time,
                       end_time = current_time + timedelta_hours remaining_time,
                       entry_location = loc, entry_duration = remaining_time\<rparr>)
                   daily_logs 0
            else split_loop st loc (combine_min (date_of current_time + 1))
                   (new_DailyLog (date_of (combine_min (date_of current_time + 1))))
                   (daily_logs @
                      [add_entry current_log
                         \<lparr>status = st, start_time = current_time, end_time = end_of_day,
                          entry_location = loc, entry_duration = time_in_day\<rparr>])
                   (remaining_time - time_in_day))
      else (current_time, current_log, daily_logs))"
  by pat_completeness auto
termination
proof -
  define c :: real where "c = 86399999999 / 3600000000"
  define mu :: "int \<Rightarrow> real \<Rightarrow> nat" where
    "mu = (\<lambda>t r. 2 * nat \<lceil>r / c\<rceil> + (if t mod US_PER_DAY = 0 then 0 else 1))"
  have cpos: "0 < c" by (simp add: c_def)
  have pos: "1 \<le> \<lceil>r / c\<rceil>" if "0 < r" for r
  proof -
    have "0 < r / c" using that cpos by simp
    then have "0 < \<lceil>r / c\<rceil>" by (simp add: ceiling_less_iff)
    then show ?thesis by simp
  qed
  have A: "mu t' 0 < mu t r" if "0 < r" for t t' r
  proof -
    have "mu t' 0 \<le> 1" by (simp add: mu_def)
    moreover have "1 \<le> nat \<lceil>r / c\<rceil>" using pos [OF that] by linarith
    then have "2 \<le> mu t r" unfolding mu_def by linarith
    ultimately show ?thesis by linarith
  qed
  have B: "mu (combine_min (date_of t + 1)) (r - hours_between (combine_max (date_of t)) t) < mu t r"
    if r: "0 < r" and nle: "\<not> r \<le> hours_between (combine_max (date_of t)) t" for t r
  proof -
    let ?tid = "hours_between (combine_max (date_of t)) t"
    have m0: "combine_min (date_of t + 1) mod US_PER_DAY = 0"
      by (simp add: combine_min_def)
    have tid0: "0 \<le> ?tid"
    proof -
      have "t mod 86400000000 < 86400000000" by simp
      then have "t \<le> t div 86400000000 * 86400000000 + 86399999999"
        using div_mult_mod_eq [of t 86400000000] by linarith
      then show ?thesis
        by (simp add: hours_between_def combine_max_def date_of_def US_PER_DAY_def)
    qed
    show ?thesis
    proof (cases "t mod US_PER_DAY = 0")
      case True
      then have "t = t div 86400000000 * 86400000000"
        using div_mult_mod_eq [of t 86400000000] by (simp add: US_PER_DAY_def)
      then have "combine_max (date_of t) - t = 86399999999"
        by (simp add: combine_max_def date_of_def US_PER_DAY_def)
      then have tid: "?tid = c"
        by (simp add: hours_between_def c_def)
      have e: "(r - c) / c = r / c - 1"
        using cpos by (simp add: field_simps)
      have ceq: "\<lceil>(r - c) / c\<rceil> = \<lceil>r / c\<rceil> - 1"
        unfolding e by (rule ceiling_diff_one)
      have L: "mu (combine_min (date_of t + 1)) (r - ?tid) = 2 * nat (\<lceil>r / c\<rceil> - 1)"
        by (simp add: mu_def m0 tid ceq)
      have R: "mu t r = 2 * nat \<lceil>r / c\<rceil>"
        using True by (simp add: mu_def)
      show ?thesis
        unfolding L R using pos [OF r] by linarith
    next
      case False
      have "(r - ?tid) / c \<le> r / c"
        using tid0 cpos by (simp add: divide_right_mono)
      then have "\<lceil>(r - ?tid) / c\<rceil> \<le> \<lceil>r / c\<rceil>"
        by (rule ceiling_mono)
      then have le: "nat \<lceil>(r - ?tid) / c\<rceil> \<le> nat \<lceil>r / c\<rceil>"
        by linarith
      have L: "mu (combine_min (date_of t + 1)) (r - ?tid) = 2 * nat \<lceil>(r - ?tid) / c\<rceil>"
        by (simp add: mu_def m0)
      have R: "mu t r = 2 * nat \<lceil>r / c\<rceil> + 1"
        using False by (simp add: mu_def)
      show ?thesis
        unfolding L R using le by linarith
    qed
  qed
  show ?thesis
    by (relation "measure (\<lambda>(st, loc, t, l, ls, r). mu t r)") (simp_all add: A B)
qed

declare split_loop.simps [simp del]

definition add_driving_entry ::
  "datetime \<Rightarrow> DailyLog \<Rightarrow> DailyLog list \<Rightarrow> real \<Rightarrow> string
     \<Rightarrow> datetime \<times> DailyLog \<times> DailyLog list" where
  "add_driving_entry current_time current_log daily_logs drive_time loc =
     (let end_t = current_time + timedelta_hours drive_time
      in if date_of current_time \<noteq> date_of end_t
         then split_loop DRIVING loc current_time current_log daily_logs drive_time
         else (end_t,
               add_entry current_log
                 \<lparr>status = DRIVING, start_time = current_time, end_time = end_t,
                  entry_location = loc, entry_duration = drive_time\<rparr>,
               daily_logs))"

definition add_stop_entry ::
  "datetime \<Rightarrow> DailyLog \<Rightarrow> DailyLog list \<Rightarrow> Stop \<Rightarrow> datetime \<times> DailyLog \<times> DailyLog list" where
  "add_stop_entry current_time current_log daily_logs stop =
     (let st = (if stop_type stop \<in> set [''pickup'', ''dropoff'', ''fuel''] then ON_DUTY
                else if stop_type stop = ''rest'' then SLEEPER
                else OFF_DUTY);
          end_t = current_time + timedelta_hours (stop_duration stop)
      in if date_of current_time \<noteq> date_of end_t
         then split_loop st (address (location stop)) current_time current_log daily_logs
                (stop_duration stop)
         else (end_t,
               add_entry current_log
                 \<lparr>status = st, start_time = current_time, end_time = end_t,
                  entry_location = address (location stop),
                  entry_duration = stop_duration stop\<rparr>,
               daily_logs))"

text \<open>
  The \<^verbatim>\<open>for i, stop in enumerate(all_stops)\<close> loop of \<^verbatim>\<open>generate_logs\<close>.  \<open>prev\<close> is
  \<^verbatim>\<open>all_stops[i - 1]\<close>, and \<open>None\<close> in the first round (\<^verbatim>\<open>i == 0\<close>).
\<close>

fun generate_logs_loop ::
  "RouteData \<Rightarrow> Stop option \<Rightarrow> Stop list \<Rightarrow> datetime \<times> DailyLog \<times> DailyLog list
     \<Rightarrow> datetime \<times> DailyLog \<times> DailyLog list" where
  "generate_logs_loop route_d prev [] state = state"
| "generate_logs_loop route_d prev (stop # rest) (current_time, current_log, daily_logs) =
     (let drive_time = (case prev of None \<Rightarrow> 0
                        | Some prev_stop \<Rightarrow>
                            calculate_drive_time_between_stops prev_stop stop route_d);
          (current_time1, current_log1, daily_logs1) =
             (if drive_time > 0
              then add_driving_entry current_time current_log daily_logs drive_time
                     (case prev of Some prev_stop \<Rightarrow> address (location prev_stop)
                      | None \<Rightarrow> ''Start Location'')
              else (current_time, current_log, daily_logs))
      in generate_logs_loop route_d (Some stop) rest
           (add_stop_entry current_time1 current_log1 daily_logs1 stop))"

text \<open>
  \<^verbatim>\<open>generate_logs\<close>; \<open>now\<close> is the value of \<^verbatim>\<open>datetime.now()\<close>.  The trip request is
  not read.
\<close>

definition generate_logs :: "datetime \<Rightarrow> RouteResult \<Rightarrow> TripRequest \<Rightarrow> DailyLog list" where
  "generate_logs now route_data trip_request =
     (let start_t = now;
          all_stops = merge_and_sort_stops (stops route_data) (fuel_stops route_data);
          (current_time, current_log, daily_logs) =
             generate_logs_loop (route route_data) None all_stops
               (start_t, new_DailyLog (date_of start_t), [])
      in if entries current_log \<noteq> [] then daily_logs @ [current_log] else daily_logs)"

text \<open>
  Two measures of a trip's logs, used to state that day-splitting preserves time.
  \<open>logged_hours\<close> is the sum of the durations of all entries of all daily logs.
  \<open>leg_drive_times\<close> lists the apportioned driving durations of the legs, as the loop
  of \<^verbatim>\<open>generate_logs\<close> computes them: one for each stop but the first, from that stop
  and the one before it.
\<close>

definition logged_hours :: "DailyLog list \<Rightarrow> real" where
  "logged_hours logs = sum_list (map entry_duration (concat (map entries logs)))"

fun leg_drive_times :: "RouteData \<Rightarrow> Stop list \<Rightarrow> real list" where
  "leg_drive_times route_d (prev_stop # stop # rest) =
     calculate_drive_time_between_stops prev_stop stop route_d
       # leg_drive_times route_d (stop # rest)"
| "leg_drive_times route_d [stop] = []"
| "leg_drive_times route_d [] = []"

text \<open>
  An entry is within one day when it starts and ends on the same calendar date;
  \<open>state_logs\<close> lists the logs of a state of the builder, the sealed ones followed by
  the open one.
\<close>

definition same_day :: "ELDEntry \<Rightarrow> bool" where
  "same_day e = (date_of (start_time e) = date_of (end_time e))"

definition logs_same_day :: "DailyLog list \<Rightarrow> bool" where
  "logs_same_day logs = list_all (\<lambda>l. list_all same_day (entries l)) logs"

fun state_logs :: "datetime \<times> DailyLog \<times> DailyLog list \<Rightarrow> DailyLog list" where
  "state_logs (current_time, current_log, daily_logs) = daily_logs @ [current_log]"

section \<open>The request handler (\<^verbatim>\<open>api/views.py\<close>)\<close>

record RouteResponse =
  resp_route :: RouteData
  resp_stops :: "Stop list"
  resp_fuel_stops :: "Stop list"
  eld_logs :: "DailyLog list"
  hos_status :: HOSStatus

text \<open>
  The request body: a key that is absent is \<open>None\<close>.  The locations are taken to be
  strings and \<^verbatim>\<open>cycle_used\<close> a JSON integer, on which \<^verbatim>\<open>int\<close> is the identity.
\<close>

record RequestData =
  req_current_location :: "string option"
  req_pickup_location :: "string option"
  req_dropoff_location :: "string option"
  req_cycle_used :: "int option"

datatype response =
  HTTP_200_OK RouteResponse
  | HTTP_400_BAD_REQUEST string
  | HTTP_500_INTERNAL_SERVER_ERROR string

text \<open>The values of \<^verbatim>\<open>datetime.now()\<close> read while one request is served.\<close>

record Clock =
  now_rest_stops :: datetime
  now_fuel_stops :: "nat \<Rightarrow> datetime"
  now_logs :: datetime
  now_compliance :: datetime

text \<open>\<^verbatim>\<open>RouteCalculationView.post\<close>\<close>

definition post :: "(TripRequest \<Rightarrow> error + RouteData) \<Rightarrow> Clock \<Rightarrow> RequestData \<Rightarrow> response" where
  "post provider clk data =
     (case req_current_location data of
        None \<Rightarrow> HTTP_400_BAD_REQUEST ''Missing required field: current_location''
      | Some cur \<Rightarrow>
     (case req_pickup_location data of
        None \<Rightarrow> HTTP_400_BAD_REQUEST ''Missing required field: pickup_location''
      | Some pick \<Rightarrow>
     (case req_dropoff_location data of
        None \<Rightarrow> HTTP_400_BAD_REQUEST ''Missing required field: dropoff_location''
      | Some dropoff \<Rightarrow>
     (case req_cycle_used data of
        None \<Rightarrow> HTTP_400_BAD_REQUEST ''Missing required field: cycle_used''
      | Some c \<Rightarrow>
     (case new_TripRequest cur pick dropoff c of
        Inl (ValueError msg) \<Rightarrow> HTTP_400_BAD_REQUEST msg
      | Inl e \<Rightarrow> HTTP_500_INTERNAL_SERVER_ERROR ''Internal server error during route calculation''
      | Inr trip_request \<Rightarrow>
     (case calculate_route provider (now_rest_stops clk) (now_fuel_stops clk) trip_request of
        Inl (ValueError msg) \<Rightarrow> HTTP_400_BAD_REQUEST msg
      | Inl e \<Rightarrow> HTTP_500_INTERNAL_SERVER_ERROR ''Internal server error during route calculation''
      | Inr route_data \<Rightarrow>
          HTTP_200_OK
            \<lparr>resp_route = route route_data,
             resp_stops = stops route_data,
             resp_fuel_stops = fuel_stops route_data,
             eld_logs = generate_logs (now_logs clk) route_data trip_request,
             hos_status = calculate_compliance (now_compliance clk) trip_request route_data\<rparr>))))))"

section \<open>Interpolated positions\<close>

text \<open>
  On its last branch \<^verbatim>\<open>interpolate_route_position\<close> reads the coordinate list within
  its range.
\<close>

lemma interpolate_index_in_range:
  assumes "coords \<noteq> []" and "0 < mile_marker" and "mile_marker < total_distance"
  shows "0 \<le> py_int (mile_marker / total_distance * of_int (int (length coords) - 1))
         \<and> py_int (mile_marker / total_distance * of_int (int (length coords) - 1))
             < int (length coords)"
proof -
  obtain k where k: "length coords = Suc k"
    using assms(1) by (cases coords) simp_all
  have n: "(of_int (int (length coords) - 1) :: real) = real k"
    by (simp add: k)
  let ?x = "mile_marker / total_distance * real k"
  have r0: "0 \<le> mile_marker / total_distance" and r1: "mile_marker / total_distance \<le> 1"
    using assms(2,3) by simp_all
  have x0: "0 \<le> ?x"
    by (rule mult_nonneg_nonneg [OF r0]) simp
  have "?x \<le> 1 * real k"
    by (rule mult_right_mono [OF r1]) simp
  then have x1: "?x \<le> of_int (int k)" by simp
  have "py_int ?x = \<lfloor>?x\<rfloor>" using x0 by (simp add: py_int_def)
  moreover have "0 \<le> \<lfloor>?x\<rfloor>" using x0 by (simp only: zero_le_floor)
  moreover have "\<lfloor>?x\<rfloor> \<le> int k" using x1 by (simp only: floor_le_iff)
  ultimately show ?thesis unfolding n by (simp add: k)
qed

section \<open>Fuel stops\<close>

lemma fuel_stops_loop_eq:
  "fuel_stops_loop d m fs = fs @ map (\<lambda>k. m + 1000 * real k) [1..<nat \<lceil>(d - m) / 1000\<rceil>]"
proof (induction d m fs rule: fuel_stops_loop.induct)
  case (1 d m fs)
  show ?case
  proof (cases "m < d")
    case False
    then have "\<lceil>(d - m) / 1000\<rceil> \<le> 0"
      by (simp add: ceiling_le_iff)
    with False show ?thesis
      by (simp add: fuel_stops_loop.simps [of d m fs])
  next
    case True
    have e: "(d - (m + 1000)) / 1000 = (d - m) / 1000 - 1"
      by (simp add: field_simps)
    have c: "\<lceil>(d - (m + 1000)) / 1000\<rceil> = \<lceil>(d - m) / 1000\<rceil> - 1"
      unfolding e by (rule ceiling_diff_one)
    have pos: "0 < \<lceil>(d - m) / 1000\<rceil>"
      using True by (simp add: ceiling_less_iff)
    define n where "n = nat \<lceil>(d - m) / 1000\<rceil>"
    have n1: "nat \<lceil>(d - (m + 1000)) / 1000\<rceil> = n - 1"
      unfolding c n_def using pos by simp
    have npos: "0 < n" unfolding n_def using pos by simp
    have sh: "map (\<lambda>k. m + 1000 + 1000 * real k) [1..<n - 1] = map (\<lambda>k. m + 1000 * real k) [2..<n]"
    proof -
      have "[2..<n] = map Suc [1..<n - 1]"
        using npos by (simp add: map_Suc_upt Suc_diff_Suc numeral_2_eq_2)
      then show ?thesis by (simp add: o_def algebra_simps)
    qed
    show ?thesis
    proof (cases "m + 1000 < d")
      case t2: True
      then have "1 < (d - m) / 1000" by (simp add: field_simps)
      then have "1 < \<lceil>(d - m) / 1000\<rceil>" by (simp add: less_ceiling_iff)
      then have n2: "2 \<le> n" unfolding n_def by linarith
      then have up: "[1..<n] = 1 # [2..<n]"
        by (simp add: upt_conv_Cons numeral_2_eq_2)
      have "fuel_stops_loop d m fs = fuel_stops_loop d (m + 1000) (fs @ [m + 1000])"
        using True t2 by (simp add: fuel_stops_loop.simps [of d m fs])
      also have "\<dots> = (fs @ [m + 1000]) @ map (\<lambda>k. m + 1000 + 1000 * real k) [1..<n - 1]"
        using "1.IH" [OF True] t2 n1 by simp
      also have "\<dots> = fs @ map (\<lambda>k. m + 1000 * real k) [1..<n]"
        unfolding sh up by simp
      finally show ?thesis unfolding n_def .
    next
      case f2: False
      then have "(d - m) / 1000 \<le> 1" by (simp add: field_simps)
      then have "\<lceil>(d - m) / 1000\<rceil> \<le> 1" by (simp add: ceiling_le_iff)
      then have n2: "n = 1" unfolding n_def using pos by linarith
      have "fuel_stops_loop d m fs = fuel_stops_loop d (m + 1000) fs"
        using True f2 by (simp add: fuel_stops_loop.simps [of d m fs])
      also have "\<dots> = fs @ map (\<lambda>k. m + 1000 + 1000 * real k) [1..<n - 1]"
        using "1.IH" [OF True] f2 n1 by simp
      also have "\<dots> = fs @ map (\<lambda>k. m + 1000 * real k) [1..<n]"
        unfolding n2 by simp
      finally show ?thesis unfolding n_def .
    qed
  qed
qed

lemma calculate_fuel_stops_eq:
  "calculate_fuel_stops d 0 = map (\<lambda>k. 1000 * real k) [1..<nat \<lceil>d / 1000\<rceil>]"
  by (simp add: calculate_fuel_stops_def fuel_stops_loop_eq)


lemma less_nat_ceiling_iff: "(k < nat \<lceil>x :: real\<rceil>) = (real k < x)"
proof -
  have "(k < nat \<lceil>x\<rceil>) = (int k < \<lceil>x\<rceil>)" by linarith
  also have "\<dots> = (of_int (int k) < x)" by (rule less_ceiling_iff)
  finally show ?thesis by simp
qed

lemma set_calculate_fuel_stops:
  "set (calculate_fuel_stops d 0) = {m. \<exists>k::nat. 0 < k \<and> m = 1000 * real k \<and> m < d}"
proof -
  have "(\<exists>k\<in>{1..<nat \<lceil>d / 1000\<rceil>}. m = 1000 * real k)
        = (\<exists>k::nat. 0 < k \<and> m = 1000 * real k \<and> m < d)" for m
  proof -
    have "(k < nat \<lceil>d / 1000\<rceil>) = (1000 * real k < d)" for k
      unfolding less_nat_ceiling_iff by (simp add: field_simps)
    then show ?thesis by auto
  qed
  then show ?thesis
    unfolding calculate_fuel_stops_eq by (auto simp: image_iff)
qed

lemma sorted_calculate_fuel_stops:
  "sorted (calculate_fuel_stops d 0) \<and> distinct (calculate_fuel_stops d 0)"
proof -
  have "strict_mono (\<lambda>k::nat. 1000 * real k)"
    by (simp add: strict_mono_def)
  then have inj: "inj_on (\<lambda>k::nat. 1000 * real k) A" for A
    by (metis strict_mono_imp_inj_on inj_on_subset subset_UNIV)
  have "sorted (map (\<lambda>k::nat. 1000 * real k) [1..<n])" for n
    by (simp add: sorted_map sorted_wrt_iff_nth_less)
  moreover have "distinct (map (\<lambda>k::nat. 1000 * real k) [1..<n])" for n
    by (simp add: distinct_map inj)
  ultimately show ?thesis unfolding calculate_fuel_stops_eq by simp
qed

lemma description_fuel_stop:
  "description (fuel_stop r t m) = ''Fuel stop at mile '' @ format_0f m"
  by (simp add: fuel_stop_def Let_def)

lemma descriptions_fuel_stops_route:
  "map description (calculate_fuel_stops_route clock r)
   = map (\<lambda>m. ''Fuel stop at mile '' @ format_0f m) (calculate_fuel_stops (distance r) 0)"
proof -
  let ?ms = "calculate_fuel_stops (distance r) 0"
  have "map description (calculate_fuel_stops_route clock r)
        = map (\<lambda>p. ''Fuel stop at mile '' @ format_0f (snd p)) (zip [0..<length ?ms] ?ms)"
    unfolding calculate_fuel_stops_route_def Let_def map_map
    by (rule map_cong) (auto simp: description_fuel_stop)
  also have "\<dots> = map (\<lambda>m. ''Fuel stop at mile '' @ format_0f m) (map snd (zip [0..<length ?ms] ?ms))"
    unfolding map_map by (simp add: o_def)
  also have "map snd (zip [0..<length ?ms] ?ms) = ?ms"
    by (simp add: map_snd_zip)
  finally show ?thesis .
qed

text \<open>
  Claim C8.  For every route distance \<open>D\<close> the mile markers computed by
  \<^verbatim>\<open>calculate_fuel_stops\<close> are exactly the positive multiples of 1000 that are strictly
  less than \<open>D\<close>, each once and in increasing order; \<open>D\<close> itself is never a marker, so
  a distance that is a multiple of 1000 gets no fuel stop at its endpoint.  The planner's
  \<^verbatim>\<open>_calculate_fuel_stops\<close> emits one fuel stop for each marker, described by it.
\<close>

theorem fuel_markers_are_multiples:
  "set (calculate_fuel_stops D 0) = {m. \<exists>k::nat. 0 < k \<and> m = 1000 * real k \<and> m < D}
   \<and> sorted (calculate_fuel_stops D 0) \<and> distinct (calculate_fuel_stops D 0)
   \<and> D \<notin> set (calculate_fuel_stops D 0)
   \<and> map description (calculate_fuel_stops_route clock \<lparr>distance = D, duration = h, coordinates = cs\<rparr>)
       = map (\<lambda>m. ''Fuel stop at mile '' @ format_0f m) (calculate_fuel_stops D 0)"
proof -
  have "D \<notin> set (calculate_fuel_stops D 0)"
    unfolding set_calculate_fuel_stops by simp
  then show ?thesis
    using sorted_calculate_fuel_stops [of D] set_calculate_fuel_stops [of D]
      descriptions_fuel_stops_route [of clock "\<lparr>distance = D, duration = h, coordinates = cs\<rparr>"]
    by simp
qed

theorem fuel_markers_are_multiples_witness:
  "set (calculate_fuel_stops 3000 0) = {1000, 2000} \<and> 3000 \<notin> set (calculate_fuel_stops 3000 0)"
proof -
  have "calculate_fuel_stops 3000 0 = [1000, 2000]"
    by (simp add: calculate_fuel_stops_eq upt_conv_Cons numeral_3_eq_3)
  then show ?thesis
    using fuel_markers_are_multiples [of 3000] by simp
qed

section \<open>Rest stops\<close>

lemma rest_stops_loop_done:
  "r \<le> 0 \<Longrightarrow> rest_stops_loop route_d ss t dt dr r = (ss, t)"
  by (simp add: rest_stops_loop.simps [of route_d ss t dt dr r])

lemma rest_stops_loop_last:
  assumes "0 < r" and "r \<le> 605" and "\<not> dt + r < distance route_d"
  shows "rest_stops_loop route_d ss t dt dr r = (ss, t + timedelta_hours (r / 55))"
proof -
  have m: "min (AVERAGE_SPEED * 11) r = r"
    using assms by (simp add: AVERAGE_SPEED_def)
  have "rest_stops_loop route_d ss t dt dr r
        = rest_stops_loop route_d ss (t + timedelta_hours (r / 55)) (dt + r) (dr + r / 55) 0"
    using assms
    by (simp add: rest_stops_loop.simps [of route_d ss t dt dr r] Let_def m)
       (simp add: AVERAGE_SPEED_def)
  then show ?thesis by (simp add: rest_stops_loop_done)
qed

lemma rest_stops_loop_rest:
  assumes "605 < r" and "dt + 605 < distance route_d"
  shows "rest_stops_loop route_d ss t dt dr r
         = rest_stops_loop route_d
             (ss @ [rest_stop (interpolate_route_position (coordinates route_d) (dt + 605)
                                 (distance route_d))
                      (t + timedelta_hours 11)])
             (t + timedelta_hours 11 + timedelta_hours 10) (dt + 605) (dr + 11) (r - 605)"
proof -
  have m: "min (AVERAGE_SPEED * 11) r = 605"
    using assms by (simp add: AVERAGE_SPEED_def)
  show ?thesis
    using assms
    by (simp add: rest_stops_loop.simps [of route_d ss t dt dr r] Let_def m)
       (simp add: AVERAGE_SPEED_def)
qed

lemma calculate_fuel_stops_route_short:
  assumes "distance r \<le> 1000"
  shows "calculate_fuel_stops_route clock r = []"
proof -
  have "\<lceil>distance r / 1000\<rceil> \<le> 1"
    using assms by (simp add: ceiling_le_iff)
  then have "calculate_fuel_stops (distance r) 0 = []"
    by (simp add: calculate_fuel_stops_eq)
  then show ?thesis by (simp add: calculate_fuel_stops_route_def)
qed

text \<open>
  Claim C9.  For every route with a non-empty coordinate list and a distance of at most
  605 miles the planner returns exactly two stops, the pickup followed by the dropoff,
  with no rest stop between them, and no fuel stop.  The route's duration is not read by
  the planner, so the bound of 11 hours on it is not needed.
\<close>

theorem short_route_pickup_dropoff:
  assumes "coordinates r \<noteq> []" and "distance r \<le> 605"
  shows "calculate_rest_stops now r trip =
           Inr [\<lparr>stop_type = ''pickup'',
                  location = \<lparr>address = ''Pickup Location'',
                              latitude = snd (if length (coordinates r) > 1
                                              then coordinates r ! 1 else coordinates r ! 0),
                              longitude = fst (if length (coordinates r) > 1
                                               then coordinates r ! 1 else coordinates r ! 0)\<rparr>,
                  time = now + timedelta_hours 0,
                  stop_duration = 1,
                  description = ''Pickup cargo''\<rparr>,
                \<lparr>stop_type = ''dropoff'',
                  location = \<lparr>address = ''Dropoff Location'',
                              latitude = snd (last (coordinates r)),
                              longitude = fst (last (coordinates r))\<rparr>,
                  time = now + timedelta_hours 1
                           + (if 0 < distance r then timedelta_hours (distance r / 55) else 0),
                  stop_duration = 1,
                  description = ''Deliver cargo''\<rparr>]
         \<and> calculate_fuel_stops_route clock r = []"
proof (cases "0 < distance r")
  case True
  then show ?thesis
    using assms
    by (simp add: calculate_rest_stops_def Let_def rest_stops_loop_last
          calculate_fuel_stops_route_short PICKUP_DURATION_def DROPOFF_DURATION_def)
next
  case False
  then show ?thesis
    using assms
    by (simp add: calculate_rest_stops_def Let_def rest_stops_loop_done
          calculate_fuel_stops_route_short PICKUP_DURATION_def DROPOFF_DURATION_def)
qed

theorem short_route_pickup_dropoff_witness:
  "map stop_type
     (projr (calculate_rest_stops 0
               \<lparr>distance = 300, duration = 5, coordinates = [(- 74, 40), (- 75, 39), (- 84, 33)]\<rparr>
               \<lparr>current_location = ''New York, NY'', pickup_location = ''Philadelphia, PA'',
                dropoff_location = ''Atlanta, GA'', cycle_used = 10\<rparr>))
   = [''pickup'', ''dropoff'']"
  using short_route_pickup_dropoff
          [of "\<lparr>distance = 300, duration = 5, coordinates = [(- 74, 40), (- 75, 39), (- 84, 33)]\<rparr>" 0
              "\<lparr>current_location = ''New York, NY'', pickup_location = ''Philadelphia, PA'',
                dropoff_location = ''Atlanta, GA'', cycle_used = 10\<rparr>"]
  by simp

lemma py_round_of_int: "py_round (of_int n) = n"
  by (simp add: py_round_def)

lemma format_0f_1000: "format_0f 1000 = ''1000''"
  by (simp add: format_0f_def py_round_def digits.simps)

lemma format_0f_2000: "format_0f 2000 = ''2000''"
  by (simp add: format_0f_def py_round_def digits.simps)

lemma calculate_fuel_stops_route_eq:
  assumes "calculate_fuel_stops (distance r) 0 = ms"
  shows "calculate_fuel_stops_route clock r
         = map (\<lambda>(i, m). fuel_stop r (clock i) m) (zip [0..<length ms] ms)"
  using assms by (simp add: calculate_fuel_stops_route_def)

text \<open>
  Claim C2, amended.  For every route of 1300 miles with a non-empty coordinate list the
  planner returns the pickup, exactly two rest stops and the dropoff.  The first rest
  stop lies at the position interpolated for mile 605 and starts after the pickup hour
  and 11 hours of driving; the second lies at the position interpolated for mile 1210
  and starts after a rest of 10 hours and another 11 hours of driving.  The fuel-stop
  list holds exactly one fuel stop, at mile marker 1000.
\<close>

theorem route_1300_two_rests_one_fuel:
  assumes "coordinates r \<noteq> []" and "distance r = 1300"
  shows "(\<exists>p d. calculate_rest_stops now r trip
                = Inr [p,
                       rest_stop (interpolate_route_position (coordinates r) 605 (distance r))
                         (now + timedelta_hours 1 + timedelta_hours 11),
                       rest_stop (interpolate_route_position (coordinates r) 1210 (distance r))
                         (now + timedelta_hours 1 + timedelta_hours 11 + timedelta_hours 10
                            + timedelta_hours 11),
                       d]
              \<and> stop_type p = ''pickup'' \<and> stop_type d = ''dropoff'')
         \<and> (\<exists>ss. calculate_rest_stops now r trip = Inr ss
              \<and> map stop_type ss = [''pickup'', ''rest'', ''rest'', ''dropoff'']
              \<and> length (filter (\<lambda>s. stop_type s = ''rest'') ss) = 2)
         \<and> calculate_fuel_stops (distance r) 0 = [1000]
         \<and> calculate_fuel_stops_route clock r = [fuel_stop r (clock 0) 1000]
         \<and> description (fuel_stop r (clock 0) 1000) = ''Fuel stop at mile 1000''"
proof -
  have loop: "rest_stops_loop r ss t 0 0 1300
              = (ss @ [rest_stop (interpolate_route_position (coordinates r) 605 1300)
                         (t + timedelta_hours 11),
                       rest_stop (interpolate_route_position (coordinates r) 1210 1300)
                         (t + timedelta_hours 11 + timedelta_hours 10 + timedelta_hours 11)],
                 t + timedelta_hours 11 + timedelta_hours 10 + timedelta_hours 11
                   + timedelta_hours 10 + timedelta_hours (90 / 55))"
    for ss t
    using assms(2) by (simp add: rest_stops_loop_rest rest_stops_loop_last)
  have fs: "calculate_fuel_stops (distance r) 0 = [1000]"
    using assms(2) by (simp add: calculate_fuel_stops_eq upt_conv_Cons numeral_2_eq_2)
  have "\<exists>p d. calculate_rest_stops now r trip
                = Inr [p,
                       rest_stop (interpolate_route_position (coordinates r) 605 (distance r))
                         (now + timedelta_hours 1 + timedelta_hours 11),
                       rest_stop (interpolate_route_position (coordinates r) 1210 (distance r))
                         (now + timedelta_hours 1 + timedelta_hours 11 + timedelta_hours 10
                            + timedelta_hours 11),
                       d]
              \<and> stop_type p = ''pickup'' \<and> stop_type d = ''dropoff''"
    using assms
    by (simp add: calculate_rest_stops_def Let_def loop PICKUP_DURATION_def)
  moreover have "\<exists>ss. calculate_rest_stops now r trip = Inr ss
              \<and> map stop_type ss = [''pickup'', ''rest'', ''rest'', ''dropoff'']
              \<and> length (filter (\<lambda>s. stop_type s = ''rest'') ss) = 2"
    using assms by (simp add: calculate_rest_stops_def Let_def loop rest_stop_def)
  moreover have "calculate_fuel_stops_route clock r = [fuel_stop r (clock 0) 1000]"
    by (simp add: calculate_fuel_stops_route_eq [OF fs])
  moreover have "description (fuel_stop r (clock 0) 1000) = ''Fuel stop at mile 1000''"
    by (simp add: description_fuel_stop format_0f_1000)
  ultimately show ?thesis using fs by simp
qed

theorem route_1300_two_rests_one_fuel_witness:
  "map stop_type
     (projr (calculate_rest_stops 0
               \<lparr>distance = 1300, duration = 24, coordinates = [(- 74, 40), (- 75, 39), (- 84, 33)]\<rparr>
               \<lparr>current_location = ''New York, NY'', pickup_location = ''Philadelphia, PA'',
                dropoff_location = ''Atlanta, GA'', cycle_used = 10\<rparr>))
   = [''pickup'', ''rest'', ''rest'', ''dropoff'']
   \<and> map description
        (calculate_fuel_stops_route (\<lambda>i. 0)
           \<lparr>distance = 1300, duration = 24, coordinates = [(- 74, 40), (- 75, 39), (- 84, 33)]\<rparr>)
     = [''Fuel stop at mile 1000'']"
  using route_1300_two_rests_one_fuel
          [of "\<lparr>distance = 1300, duration = 24, coordinates = [(- 74, 40), (- 75, 39), (- 84, 33)]\<rparr>" 0
              "\<lparr>current_location = ''New York, NY'', pickup_location = ''Philadelphia, PA'',
                dropoff_location = ''Atlanta, GA'', cycle_used = 10\<rparr>" "\<lambda>i. 0"]
  by auto

text \<open>
  Counterexample to claim C2 as stated: a route of 1300 miles gets two rest stops, not
  one.  After the first 605 miles 695 miles remain, which is more than one driving day
  of 605 miles, so a second rest stop is placed at mile 1210.
\<close>

theorem route_1300_two_rest_stops:
  "length (filter (\<lambda>s. stop_type s = ''rest'')
     (projr (calculate_rest_stops 0
               \<lparr>distance = 1300, duration = 24, coordinates = [(- 74, 40), (- 75, 39), (- 84, 33)]\<rparr>
               \<lparr>current_location = ''New York, NY'', pickup_location = ''Philadelphia, PA'',
                dropoff_location = ''Atlanta, GA'', cycle_used = 10\<rparr>)))
   = 2"
proof -
  have loop: "rest_stops_loop
                \<lparr>distance = 1300, duration = 24, coordinates = [(- 74, 40), (- 75, 39), (- 84, 33)]\<rparr>
                ss t 0 0 1300
              = (ss @ [rest_stop (- 74, 40) (t + timedelta_hours 11),
                       rest_stop (- 75, 39)
                         (t + timedelta_hours 11 + timedelta_hours 10 + timedelta_hours 11)],
                 t + timedelta_hours 11 + timedelta_hours 10 + timedelta_hours 11
                   + timedelta_hours 10 + timedelta_hours (90 / 55))"
    for ss t
    by (simp add: rest_stops_loop_rest rest_stops_loop_last interpolate_route_position_def
          py_int_def Let_def)
  show ?thesis
    by (simp add: calculate_rest_stops_def Let_def loop rest_stop_def)
qed

section \<open>HOS compliance\<close>

lemma rev_drive_limit_message:
  "\<exists>rest. rev (drive_limit_message x) = ''sruoh '' @ rest"
  by (simp add: drive_limit_message_def)

lemma rev_duty_limit_message:
  "\<exists>rest. rev (duty_limit_message x) = ''sruoh '' @ rest"
  by (simp add: duty_limit_message_def)

lemma limit_messages_distinct:
  "drive_limit_message x \<noteq> multi_day_message"
  "drive_limit_message x \<noteq> CYCLE_EXCEEDED"
  "duty_limit_message x \<noteq> multi_day_message"
  "duty_limit_message x \<noteq> CYCLE_EXCEEDED"
proof -
  have m: "rev multi_day_message = ''sdoirep tser yrotadnam htiw gninnalp yad-itlum seriuqer pirT''"
    by (simp add: multi_day_message_def)
  have c: "rev CYCLE_EXCEEDED = ''dedeecxe timil elcyc ylkeeW''"
    by (simp add: CYCLE_EXCEEDED_def)
  obtain r1 where r1: "rev (drive_limit_message x) = ''sruoh '' @ r1"
    using rev_drive_limit_message by blast
  obtain r2 where r2: "rev (duty_limit_message x) = ''sruoh '' @ r2"
    using rev_duty_limit_message by blast
  show "drive_limit_message x \<noteq> multi_day_message"
  proof
    assume "drive_limit_message x = multi_day_message"
    then have "rev (drive_limit_message x) = rev multi_day_message" by simp
    then show False unfolding r1 m by simp
  qed
  show "drive_limit_message x \<noteq> CYCLE_EXCEEDED"
  proof
    assume "drive_limit_message x = CYCLE_EXCEEDED"
    then have "rev (drive_limit_message x) = rev CYCLE_EXCEEDED" by simp
    then show False unfolding r1 c by simp
  qed
  show "duty_limit_message x \<noteq> multi_day_message"
  proof
    assume "duty_limit_message x = multi_day_message"
    then have "rev (duty_limit_message x) = rev multi_day_message" by simp
    then show False unfolding r2 m by simp
  qed
  show "duty_limit_message x \<noteq> CYCLE_EXCEEDED"
  proof
    assume "duty_limit_message x = CYCLE_EXCEEDED"
    then have "rev (duty_limit_message x) = rev CYCLE_EXCEEDED" by simp
    then show False unfolding r2 c by simp
  qed
qed

lemma calculate_estimated_duty_time_le: "calculate_estimated_duty_time rd \<le> 14"
  by (simp add: calculate_estimated_duty_time_def Let_def DAILY_DUTY_LIMIT_def)

lemma violations_calculate_compliance:
  "violations (calculate_compliance now trip rd)
   = (if real_of_int (cycle_used trip) + calculate_estimated_duty_time rd > 70
      then [CYCLE_EXCEEDED] else [])
     @ (if duration (route rd) > 11 then [multi_day_message] else [])"
  using calculate_estimated_duty_time_le [of rd]
  by (simp add: calculate_compliance_def check_violations_def Let_def
        DAILY_DRIVE_LIMIT_def DAILY_DUTY_LIMIT_def WEEKLY_LIMIT_def)

text \<open>
  Claim C3.  For every trip request and every route result, the violations returned by
  \<^verbatim>\<open>calculate_compliance\<close> contain neither the daily drive-limit message nor the daily
  duty-limit message, whatever the measured value printed in them: the estimated drive
  time is at most 11 and the estimated duty time at most 14 when they are compared with
  these limits.
\<close>

theorem no_daily_limit_violation:
  "drive_limit_message x \<notin> set (violations (calculate_compliance now trip rd))
   \<and> duty_limit_message y \<notin> set (violations (calculate_compliance now trip rd))
   \<and> drive_time_today (calculate_compliance now trip rd) \<le> 11
   \<and> duty_time_today (calculate_compliance now trip rd) \<le> 14"
proof -
  have "drive_time_today (calculate_compliance now trip rd) \<le> 11"
    by (simp add: calculate_compliance_def Let_def DAILY_DRIVE_LIMIT_def)
  moreover have "duty_time_today (calculate_compliance now trip rd) \<le> 14"
    using calculate_estimated_duty_time_le [of rd]
    by (simp add: calculate_compliance_def Let_def)
  ultimately show ?thesis
    by (simp add: violations_calculate_compliance limit_messages_distinct)
qed

theorem no_daily_limit_violation_witness:
  "drive_limit_message 11 \<notin>
     set (violations (calculate_compliance 0
            \<lparr>current_location = ''New York, NY'', pickup_location = ''Philadelphia, PA'',
             dropoff_location = ''Atlanta, GA'', cycle_used = 45\<rparr>
            \<lparr>route = \<lparr>distance = 2200, duration = 40, coordinates = [(- 74, 40)]\<rparr>,
             stops = [], fuel_stops = []\<rparr>))
   \<and> duty_limit_message 14 \<notin>
     set (violations (calculate_compliance 0
            \<lparr>current_location = ''New York, NY'', pickup_location = ''Philadelphia, PA'',
             dropoff_location = ''Atlanta, GA'', cycle_used = 45\<rparr>
            \<lparr>route = \<lparr>distance = 2200, duration = 40, coordinates = [(- 74, 40)]\<rparr>,
             stops = [], fuel_stops = []\<rparr>))"
  using no_daily_limit_violation
          [of 11 0 "\<lparr>current_location = ''New York, NY'', pickup_location = ''Philadelphia, PA'',
                      dropoff_location = ''Atlanta, GA'', cycle_used = 45\<rparr>"
              "\<lparr>route = \<lparr>distance = 2200, duration = 40, coordinates = [(- 74, 40)]\<rparr>,
                stops = [], fuel_stops = []\<rparr>" 14]
  by simp

lemma calculate_rest_stops_Inr:
  assumes "coordinates r \<noteq> []"
  shows "\<exists>ss. calculate_rest_stops now r trip = Inr ss"
  using assms by (simp add: calculate_rest_stops_def Let_def split_def)

lemma calculate_route_Inr:
  assumes "calculate_rest_stops now r trip = Inr ss"
  shows "calculate_route (\<lambda>t. Inr r) now clock trip
         = Inr \<lparr>route = r, stops = ss, fuel_stops = calculate_fuel_stops_route clock r\<rparr>"
  using assms by (simp add: calculate_route_def)

lemma rest_stops_loop_2200:
  assumes "distance r = 2200"
  shows "rest_stops_loop r ss t 0 0 2200
         = (ss @ [rest_stop (interpolate_route_position (coordinates r) 605 2200)
                    (t + timedelta_hours 11),
                  rest_stop (interpolate_route_position (coordinates r) 1210 2200)
                    (t + timedelta_hours 11 + timedelta_hours 10 + timedelta_hours 11),
                  rest_stop (interpolate_route_position (coordinates r) 1815 2200)
                    (t + timedelta_hours 11 + timedelta_hours 10 + timedelta_hours 11
                       + timedelta_hours 10 + timedelta_hours 11)],
            t + timedelta_hours 11 + timedelta_hours 10 + timedelta_hours 11
              + timedelta_hours 10 + timedelta_hours 11 + timedelta_hours 10
              + timedelta_hours (385 / 55))"
  using assms by (simp add: rest_stops_loop_rest rest_stops_loop_last)

lemma rest_stops_2200:
  assumes "coordinates r \<noteq> []" and "distance r = 2200"
  shows "\<exists>ss. calculate_rest_stops now r trip = Inr ss
              \<and> map stop_type ss = [''pickup'', ''rest'', ''rest'', ''rest'', ''dropoff'']"
  using assms by (simp add: calculate_rest_stops_def Let_def rest_stops_loop_2200 rest_stop_def)

lemma fuel_stops_2200:
  assumes "distance r = 2200"
  shows "calculate_fuel_stops (distance r) 0 = [1000, 2000]"
    and "calculate_fuel_stops_route clock r = [fuel_stop r (clock 0) 1000, fuel_stop r (clock 1) 2000]"
proof -
  show fs: "calculate_fuel_stops (distance r) 0 = [1000, 2000]"
    using assms by (simp add: calculate_fuel_stops_eq upt_conv_Cons numeral_3_eq_3)
  show "calculate_fuel_stops_route clock r = [fuel_stop r (clock 0) 1000, fuel_stop r (clock 1) 2000]"
    by (simp add: calculate_fuel_stops_route_eq [OF fs] upt_conv_Cons numeral_2_eq_2)
qed

lemma violations_long_trip:
  assumes "cycle_used trip \<le> 56" and "11 < duration (route rd)"
  shows "violations (calculate_compliance now trip rd) = [multi_day_message]"
proof -
  have "real_of_int (cycle_used trip) \<le> 56"
    using assms(1) by linarith
  then have "\<not> real_of_int (cycle_used trip) + calculate_estimated_duty_time rd > 70"
    using calculate_estimated_duty_time_le [of rd] by linarith
  then show ?thesis
    using assms(2) by (simp add: violations_calculate_compliance)
qed

text \<open>
  Claim C1, amended.  For the scenario of the specification (45 hours of the cycle used,
  a route of 2200 miles and 40 hours, a non-empty coordinate list) the planner returns
  the pickup, three rest stops and the dropoff, and two fuel stops, at the mile markers
  1000 and 2000.  The violations of the HOS evaluation are exactly the multi-day-planning
  message, which is not a daily drive-limit message: the drive time of the day is capped
  at 11 hours before it is compared with the limit of 11 hours.
\<close>

theorem scenario_2200_miles_40_hours:
  assumes "coordinates r \<noteq> []" and "distance r = 2200" and "duration r = 40"
    and "cycle_used trip = 45"
  shows "\<exists>ss. calculate_route (\<lambda>t. Inr r) now clock trip
                = Inr \<lparr>route = r, stops = ss,
                       fuel_stops = [fuel_stop r (clock 0) 1000, fuel_stop r (clock 1) 2000]\<rparr>
              \<and> map stop_type ss = [''pickup'', ''rest'', ''rest'', ''rest'', ''dropoff'']
              \<and> calculate_fuel_stops (distance r) 0 = [1000, 2000]
              \<and> violations (calculate_compliance now_hos trip
                    \<lparr>route = r, stops = ss,
                     fuel_stops = [fuel_stop r (clock 0) 1000, fuel_stop r (clock 1) 2000]\<rparr>)
                  = [multi_day_message]
              \<and> drive_limit_message x \<noteq> multi_day_message"
proof -
  from rest_stops_2200 [OF assms(1,2), of now trip]
  obtain ss where both: "calculate_rest_stops now r trip = Inr ss
      \<and> map stop_type ss = [''pickup'', ''rest'', ''rest'', ''rest'', ''dropoff'']" ..
  note ss = both [THEN conjunct1] and ty = both [THEN conjunct2]
  have fs: "calculate_fuel_stops_route clock r
            = [fuel_stop r (clock 0) 1000, fuel_stop r (clock 1) 2000]"
    by (rule fuel_stops_2200(2) [OF assms(2)])
  have cr: "calculate_route (\<lambda>t. Inr r) now clock trip
            = Inr \<lparr>route = r, stops = ss,
                   fuel_stops = [fuel_stop r (clock 0) 1000, fuel_stop r (clock 1) 2000]\<rparr>"
    unfolding calculate_route_Inr [OF ss] fs ..
  have v: "violations (calculate_compliance now_hos trip
          \<lparr>route = r, stops = ss,
           fuel_stops = [fuel_stop r (clock 0) 1000, fuel_stop r (clock 1) 2000]\<rparr>)
        = [multi_day_message]"
    using assms(3,4) by (simp add: violations_long_trip)
  show ?thesis
    by (rule exI [of _ ss])
       (intro conjI cr ty fuel_stops_2200(1) [OF assms(2)] v limit_messages_distinct(1))
qed

theorem scenario_2200_miles_40_hours_witness:
  "violations (calculate_compliance 0
       \<lparr>current_location = ''New York, NY'', pickup_location = ''Philadelphia, PA'',
        dropoff_location = ''Atlanta, GA'', cycle_used = 45\<rparr>
       (projr (calculate_route
                 (\<lambda>t. Inr \<lparr>distance = 2200, duration = 40,
                            coordinates = [(- 74, 40), (- 75, 39), (- 84, 33)]\<rparr>)
                 0 (\<lambda>i. 0)
                 \<lparr>current_location = ''New York, NY'', pickup_location = ''Philadelphia, PA'',
                  dropoff_location = ''Atlanta, GA'', cycle_used = 45\<rparr>)))
   = [multi_day_message]
   \<and> map stop_type
       (stops (projr (calculate_route
                 (\<lambda>t. Inr \<lparr>distance = 2200, duration = 40,
                            coordinates = [(- 74, 40), (- 75, 39), (- 84, 33)]\<rparr>)
                 0 (\<lambda>i. 0)
                 \<lparr>current_location = ''New York, NY'', pickup_location = ''Philadelphia, PA'',
                  dropoff_location = ''Atlanta, GA'', cycle_used = 45\<rparr>)))
     = [''pickup'', ''rest'', ''rest'', ''rest'', ''dropoff'']"
proof -
  let ?r = "\<lparr>distance = 2200, duration = 40, coordinates = [(- 74, 40), (- 75, 39), (- 84, 33)]\<rparr>"
  let ?t = "\<lparr>current_location = ''New York, NY'', pickup_location = ''Philadelphia, PA'',
             dropoff_location = ''Atlanta, GA'', cycle_used = 45\<rparr>"
  have "\<exists>ss. calculate_route (\<lambda>t. Inr ?r) 0 (\<lambda>i. 0) ?t
                = Inr \<lparr>route = ?r, stops = ss,
                       fuel_stops = [fuel_stop ?r ((\<lambda>i. 0) 0) 1000, fuel_stop ?r ((\<lambda>i. 0) 1) 2000]\<rparr>
              \<and> map stop_type ss = [''pickup'', ''rest'', ''rest'', ''rest'', ''dropoff'']
              \<and> calculate_fuel_stops (distance ?r) 0 = [1000, 2000]
              \<and> violations (calculate_compliance 0 ?t
                    \<lparr>route = ?r, stops = ss,
                     fuel_stops = [fuel_stop ?r ((\<lambda>i. 0) 0) 1000, fuel_stop ?r ((\<lambda>i. 0) 1) 2000]\<rparr>)
                  = [multi_day_message]
              \<and> drive_limit_message 11 \<noteq> multi_day_message"
    by (rule scenario_2200_miles_40_hours) simp_all
  then obtain ss where
    all: "calculate_route (\<lambda>t. Inr ?r) 0 (\<lambda>i. 0) ?t
                = Inr \<lparr>route = ?r, stops = ss,
                       fuel_stops = [fuel_stop ?r ((\<lambda>i. 0) 0) 1000, fuel_stop ?r ((\<lambda>i. 0) 1) 2000]\<rparr>
              \<and> map stop_type ss = [''pickup'', ''rest'', ''rest'', ''rest'', ''dropoff'']
              \<and> calculate_fuel_stops (distance ?r) 0 = [1000, 2000]
              \<and> violations (calculate_compliance 0 ?t
                    \<lparr>route = ?r, stops = ss,
                     fuel_stops = [fuel_stop ?r ((\<lambda>i. 0) 0) 1000, fuel_stop ?r ((\<lambda>i. 0) 1) 2000]\<rparr>)
                  = [multi_day_message]
              \<and> drive_limit_message 11 \<noteq> multi_day_message" ..
  note cr = all [THEN conjunct1]
    and ty = all [THEN conjunct2, THEN conjunct1]
    and v = all [THEN conjunct2, THEN conjunct2, THEN conjunct2, THEN conjunct1]
  show ?thesis
    unfolding cr sum.sel using ty v by simp
qed

text \<open>
  Counterexample to claim C1 as stated: in the scenario the violations hold the
  multi-day-planning message only.  It is not the daily drive-limit message, neither
  for the capped drive time of 11 hours nor for the route's 40 hours.
\<close>

theorem scenario_no_drive_limit_message:
  "violations (calculate_compliance 0
       \<lparr>current_location = ''New York, NY'', pickup_location = ''Philadelphia, PA'',
        dropoff_location = ''Atlanta, GA'', cycle_used = 45\<rparr>
       (projr (calculate_route
                 (\<lambda>t. Inr \<lparr>distance = 2200, duration = 40,
                            coordinates = [(- 74, 40), (- 75, 39), (- 84, 33)]\<rparr>)
                 0 (\<lambda>i. 0)
                 \<lparr>current_location = ''New York, NY'', pickup_location = ''Philadelphia, PA'',
                  dropoff_location = ''Atlanta, GA'', cycle_used = 45\<rparr>)))
   = [multi_day_message]
   \<and> drive_limit_message 11 \<noteq> multi_day_message
   \<and> drive_limit_message 40 \<noteq> multi_day_message"
proof -
  let ?r = "\<lparr>distance = 2200, duration = 40, coordinates = [(- 74, 40), (- 75, 39), (- 84, 33)]\<rparr>"
  let ?t = "\<lparr>current_location = ''New York, NY'', pickup_location = ''Philadelphia, PA'',
             dropoff_location = ''Atlanta, GA'', cycle_used = 45\<rparr>"
  have "coordinates ?r \<noteq> []" by simp
  from calculate_rest_stops_Inr [OF this, of 0 ?t]
  obtain ss where ss: "calculate_rest_stops 0 ?r ?t = Inr ss" ..
  show ?thesis
    by (simp add: calculate_route_Inr [OF ss] violations_long_trip limit_messages_distinct)
qed

lemma foldl_on_duty:
  "foldl (\<lambda>total stop.
            if stop_type stop \<in> set [''pickup'', ''dropoff'', ''fuel'']
            then total + stop_duration stop else total) a ss
   = a + sum_list (map stop_duration
           (filter (\<lambda>s. stop_type s \<in> set [''pickup'', ''dropoff'', ''fuel'']) ss))"
  by (induction ss arbitrary: a) simp_all

lemma estimated_duty_time_reads_stops_only:
  "calculate_estimated_duty_time rd
   = min (duration (route rd)
          + sum_list (map stop_duration
               (filter (\<lambda>s. stop_type s \<in> set [''pickup'', ''dropoff'', ''fuel'']) (stops rd))))
         14"
  unfolding calculate_estimated_duty_time_def Let_def foldl_on_duty
  by (simp add: DAILY_DUTY_LIMIT_def)

lemma rest_stops_1100:
  assumes "coordinates r \<noteq> []" and "distance r = 1100"
  shows "\<exists>p q d. calculate_rest_stops now r trip = Inr [p, q, d]
           \<and> stop_type p = ''pickup'' \<and> stop_duration p = 1
           \<and> stop_type q = ''rest'' \<and> stop_duration q = 10
           \<and> stop_type d = ''dropoff'' \<and> stop_duration d = 1"
proof -
  have loop: "rest_stops_loop r ss t 0 0 1100
              = (ss @ [rest_stop (interpolate_route_position (coordinates r) 605 1100)
                         (t + timedelta_hours 11)],
                 t + timedelta_hours 11 + timedelta_hours 10 + timedelta_hours (495 / 55))"
    for ss t
    using assms(2) by (simp add: rest_stops_loop_rest rest_stops_loop_last)
  show ?thesis
    using assms
    by (simp add: calculate_rest_stops_def Let_def loop rest_stop_def
          PICKUP_DURATION_def DROPOFF_DURATION_def)
qed

text \<open>
  Claim C4 fails on the code.  On a route of 1100 miles and 11 hours the planner
  produces one fuel stop of half an hour (at mile 1000), in the fuel-stop list.
  \<^verbatim>\<open>_calculate_estimated_duty_time\<close> tests for the type \<^verbatim>\<open>'fuel'\<close> but iterates over the
  list \<^verbatim>\<open>'stops'\<close> only, which never holds a fuel stop: the duty time of the day is
  \<open>11 + 1 + 1 = 13\<close>, where the specification's formula gives \<open>13.5\<close>.
\<close>

theorem duty_time_misses_fuel_stop:
  "duty_time_today (calculate_compliance 0
       \<lparr>current_location = ''New York, NY'', pickup_location = ''Philadelphia, PA'',
        dropoff_location = ''Atlanta, GA'', cycle_used = 10\<rparr>
       (projr (calculate_route
                 (\<lambda>t. Inr \<lparr>distance = 1100, duration = 11,
                            coordinates = [(- 74, 40), (- 75, 39), (- 84, 33)]\<rparr>)
                 0 (\<lambda>i. 0)
                 \<lparr>current_location = ''New York, NY'', pickup_location = ''Philadelphia, PA'',
                  dropoff_location = ''Atlanta, GA'', cycle_used = 10\<rparr>)))
   = 13
   \<and> spec_duty_time_today
       (projr (calculate_route
                 (\<lambda>t. Inr \<lparr>distance = 1100, duration = 11,
                            coordinates = [(- 74, 40), (- 75, 39), (- 84, 33)]\<rparr>)
                 0 (\<lambda>i. 0)
                 \<lparr>current_location = ''New York, NY'', pickup_location = ''Philadelphia, PA'',
                  dropoff_location = ''Atlanta, GA'', cycle_used = 10\<rparr>))
     = 27 / 2"
proof -
  let ?r = "\<lparr>distance = 1100, duration = 11, coordinates = [(- 74, 40), (- 75, 39), (- 84, 33)]\<rparr>"
  let ?t = "\<lparr>current_location = ''New York, NY'', pickup_location = ''Philadelphia, PA'',
             dropoff_location = ''Atlanta, GA'', cycle_used = 10\<rparr>"
  have "\<exists>p q d. calculate_rest_stops 0 ?r ?t = Inr [p, q, d]
           \<and> stop_type p = ''pickup'' \<and> stop_duration p = 1
           \<and> stop_type q = ''rest'' \<and> stop_duration q = 10
           \<and> stop_type d = ''dropoff'' \<and> stop_duration d = 1"
    by (rule rest_stops_1100) simp_all
  then obtain p q d where ss: "calculate_rest_stops 0 ?r ?t = Inr [p, q, d]"
    and ty: "stop_type p = ''pickup''" "stop_duration p = 1"
            "stop_type q = ''rest''" "stop_duration q = 10"
            "stop_type d = ''dropoff''" "stop_duration d = 1"
    by auto
  have fs: "calculate_fuel_stops (distance ?r) 0 = [1000]"
    by (simp add: calculate_fuel_stops_eq upt_conv_Cons numeral_2_eq_2)
  have fr: "calculate_fuel_stops_route (\<lambda>i. 0) ?r = [fuel_stop ?r 0 1000]"
    by (simp add: calculate_fuel_stops_route_eq [OF fs])
  have fd: "stop_type (fuel_stop ?r 0 1000) = ''fuel''"
      "stop_duration (fuel_stop ?r 0 1000) = 1 / 2"
    by (simp_all add: fuel_stop_def Let_def FUEL_STOP_DURATION_def)
  have code: "duty_time_today (calculate_compliance 0 ?t
                 \<lparr>route = ?r, stops = [p, q, d], fuel_stops = [fuel_stop ?r 0 1000]\<rparr>) = 13"
    by (simp add: calculate_compliance_def Let_def estimated_duty_time_reads_stops_only ty)
  have spec: "spec_duty_time_today
                 \<lparr>route = ?r, stops = [p, q, d], fuel_stops = [fuel_stop ?r 0 1000]\<rparr> = 27 / 2"
    by (simp add: spec_duty_time_today_def ty fd)
  show ?thesis
    unfolding calculate_route_Inr [OF ss] fr sum.sel using code spec by simp
qed

section \<open>Daily logs\<close>

lemma entries_add_entry: "entries (add_entry l e) = entries l @ [e]"
  by (simp add: add_entry_def Let_def)

lemma log_date_add_entry: "log_date (add_entry l e) = log_date l"
  by (simp add: add_entry_def Let_def)

lemma total_drive_time_add_entry:
  "total_drive_time (add_entry l e)
   = total_drive_time l + (if status e = ''driving'' then entry_duration e else 0)"
  by (simp add: add_entry_def Let_def)

lemma total_duty_time_add_entry:
  "total_duty_time (add_entry l e)
   = total_duty_time l
     + (if status e \<in> set [''driving'', ''on_duty''] then entry_duration e else 0)"
  by (simp add: add_entry_def Let_def)

lemma foldl_add_entry:
  "entries (foldl add_entry l es) = entries l @ es
   \<and> total_drive_time (foldl add_entry l es)
       = total_drive_time l
         + sum_list (map entry_duration (filter (\<lambda>e. status e = ''driving'') es))
   \<and> total_duty_time (foldl add_entry l es)
       = total_duty_time l
         + sum_list (map entry_duration
             (filter (\<lambda>e. status e \<in> set [''driving'', ''on_duty'']) es))"
proof (induction es arbitrary: l)
  case Nil
  show ?case by simp
next
  case (Cons e es)
  show ?case
    using Cons.IH [of "add_entry l e"]
    by (simp add: entries_add_entry total_drive_time_add_entry total_duty_time_add_entry)
qed

text \<open>
  Claim C6.  For every daily log built from a fresh \<^verbatim>\<open>DailyLog\<close> by appending entries
  with \<^verbatim>\<open>add_entry\<close>, the entries are the appended ones in order, the stored
  \<open>total_drive_time\<close> is the sum of the durations of its entries of status
  \<^verbatim>\<open>driving\<close>, and the stored \<open>total_duty_time\<close> is the sum of the durations of its
  entries of status \<^verbatim>\<open>driving\<close> or \<^verbatim>\<open>on_duty\<close>.
\<close>

theorem daily_log_totals:
  "entries (foldl add_entry (new_DailyLog d) es) = es
   \<and> total_drive_time (foldl add_entry (new_DailyLog d) es)
       = sum_list (map entry_duration
           (filter (\<lambda>e. status e = ''driving'') (entries (foldl add_entry (new_DailyLog d) es))))
   \<and> total_duty_time (foldl add_entry (new_DailyLog d) es)
       = sum_list (map entry_duration
           (filter (\<lambda>e. status e \<in> set [''driving'', ''on_duty''])
              (entries (foldl add_entry (new_DailyLog d) es))))"
  using foldl_add_entry [of "new_DailyLog d" es]
  by (simp add: new_DailyLog_def)

theorem daily_log_totals_witness:
  "total_drive_time
     (foldl add_entry (new_DailyLog 0)
        [\<lparr>status = ''on_duty'', start_time = 0, end_time = 3600000000,
          entry_location = ''Pickup Location'', entry_duration = 1\<rparr>,
         \<lparr>status = ''driving'', start_time = 3600000000, end_time = 12600000000,
          entry_location = ''Pickup Location'', entry_duration = 5 / 2\<rparr>,
         \<lparr>status = ''sleeper'', start_time = 12600000000, end_time = 48600000000,
          entry_location = ''Rest Area'', entry_duration = 10\<rparr>]) = 5 / 2
   \<and> total_duty_time
     (foldl add_entry (new_DailyLog 0)
        [\<lparr>status = ''on_duty'', start_time = 0, end_time = 3600000000,
          entry_location = ''Pickup Location'', entry_duration = 1\<rparr>,
         \<lparr>status = ''driving'', start_time = 3600000000, end_time = 12600000000,
          entry_location = ''Pickup Location'', entry_duration = 5 / 2\<rparr>,
         \<lparr>status = ''sleeper'', start_time = 12600000000, end_time = 48600000000,
          entry_location = ''Rest Area'', entry_duration = 10\<rparr>]) = 7 / 2"
  using daily_log_totals
          [of 0 "[\<lparr>status = ''on_duty'', start_time = 0, end_time = 3600000000,
          entry_location = ''Pickup Location'', entry_duration = 1\<rparr>,
         \<lparr>status = ''driving'', start_time = 3600000000, end_time = 12600000000,
          entry_location = ''Pickup Location'', entry_duration = 5 / 2\<rparr>,
         \<lparr>status = ''sleeper'', start_time = 12600000000, end_time = 48600000000,
          entry_location = ''Rest Area'', entry_duration = 10\<rparr>]"]
  by simp

section \<open>Validation of the trip request\<close>

text \<open>
  Claim C10.  For every \<open>cycle_used\<close> outside the interval from 0 to 70 the
  construction of the trip request fails with the \<^verbatim>\<open>ValueError\<close> of
  \<^verbatim>\<open>__post_init__\<close>, and the request handler answers 400 with that message whatever
  the routing provider would return: the route is never calculated.  For every value
  inside the interval the construction succeeds.
\<close>

theorem cycle_used_validated:
  "(\<not> (0 \<le> c \<and> c \<le> 70) \<longrightarrow>
      new_TripRequest cur pick dropoff c
        = Inl (ValueError ''Cycle used must be between 0 and 70 hours'')
      \<and> post provider clk
            \<lparr>req_current_location = Some cur, req_pickup_location = Some pick,
             req_dropoff_location = Some dropoff, req_cycle_used = Some c\<rparr>
          = HTTP_400_BAD_REQUEST ''Cycle used must be between 0 and 70 hours'')
   \<and> (0 \<le> c \<and> c \<le> 70 \<longrightarrow>
      new_TripRequest cur pick dropoff c
        = Inr \<lparr>current_location = cur, pickup_location = pick,
               dropoff_location = dropoff, cycle_used = c\<rparr>)"
  by (simp add: new_TripRequest_def post_def)

theorem cycle_used_validated_witness:
  "new_TripRequest ''New York, NY'' ''Philadelphia, PA'' ''Atlanta, GA'' 71
     = Inl (ValueError ''Cycle used must be between 0 and 70 hours'')
   \<and> new_TripRequest ''New York, NY'' ''Philadelphia, PA'' ''Atlanta, GA'' (- 1)
     = Inl (ValueError ''Cycle used must be between 0 and 70 hours'')
   \<and> post (\<lambda>t. Inr \<lparr>distance = 300, duration = 5, coordinates = [(- 74, 40)]\<rparr>)
          \<lparr>now_rest_stops = 0, now_fuel_stops = (\<lambda>i. 0), now_logs = 0, now_compliance = 0\<rparr>
          \<lparr>req_current_location = Some ''New York, NY'',
           req_pickup_location = Some ''Philadelphia, PA'',
           req_dropoff_location = Some ''Atlanta, GA'', req_cycle_used = Some 71\<rparr>
     = HTTP_400_BAD_REQUEST ''Cycle used must be between 0 and 70 hours''
   \<and> new_TripRequest ''New York, NY'' ''Philadelphia, PA'' ''Atlanta, GA'' 70
     = Inr \<lparr>current_location = ''New York, NY'', pickup_location = ''Philadelphia, PA'',
            dropoff_location = ''Atlanta, GA'', cycle_used = 70\<rparr>"
  using cycle_used_validated [of 71 "''New York, NY''" "''Philadelphia, PA''" "''Atlanta, GA''"
          "\<lambda>t. Inr \<lparr>distance = 300, duration = 5, coordinates = [(- 74, 40)]\<rparr>"
          "\<lparr>now_rest_stops = 0, now_fuel_stops = (\<lambda>i. 0), now_logs = 0, now_compliance = 0\<rparr>"]
    cycle_used_validated [of "- 1" "''New York, NY''" "''Philadelphia, PA''" "''Atlanta, GA''"]
    cycle_used_validated [of 70 "''New York, NY''" "''Philadelphia, PA''" "''Atlanta, GA''"]
  by simp

section \<open>Day splitting\<close>

subsection \<open>Rounding and dates\<close>

lemma py_round_nonneg:
  assumes "0 \<le> x"
  shows "0 \<le> py_round x"
proof -
  have "0 \<le> \<lfloor>x\<rfloor>" using assms by simp
  then show ?thesis by (simp add: py_round_def Let_def)
qed

lemma py_round_le:
  assumes "x \<le> of_int n"
  shows "py_round x \<le> n"
proof (cases "x = of_int \<lfloor>x\<rfloor>")
  case True
  then have "x - of_int \<lfloor>x\<rfloor> = 0" by simp
  then have "py_round x = \<lfloor>x\<rfloor>" by (simp add: py_round_def Let_def)
  moreover have "\<lfloor>x\<rfloor> \<le> n" using assms by (simp add: floor_le_iff)
  ultimately show ?thesis by simp
next
  case False
  have "of_int \<lfloor>x\<rfloor> \<le> x" by simp
  with False have "of_int \<lfloor>x\<rfloor> < x" by linarith
  with assms have "of_int \<lfloor>x\<rfloor> < (of_int n :: real)" by linarith
  then have "\<lfloor>x\<rfloor> < n" by simp
  moreover have "py_round x \<le> \<lfloor>x\<rfloor> + 1" by (simp add: py_round_def Let_def)
  ultimately show ?thesis by linarith
qed

lemma date_of_combine_max: "date_of (combine_max d) = d"
  by (simp add: date_of_def combine_max_def US_PER_DAY_def)

lemma date_of_combine_min: "date_of (combine_min d) = d"
  by (simp add: date_of_def combine_min_def US_PER_DAY_def)

lemma le_combine_max: "t \<le> combine_max (date_of t)"
proof -
  have "t mod 86400000000 < 86400000000" by simp
  then have "t \<le> t div 86400000000 * 86400000000 + 86399999999"
    using div_mult_mod_eq [of t 86400000000] by linarith
  then show ?thesis by (simp add: combine_max_def date_of_def US_PER_DAY_def)
qed

lemma date_of_mono: "a \<le> b \<Longrightarrow> date_of a \<le> date_of b"
  by (simp add: date_of_def US_PER_DAY_def zdiv_mono1)

lemma date_of_within_day:
  assumes "t \<le> t'" and "t' \<le> combine_max (date_of t)"
  shows "date_of t' = date_of t"
proof -
  have "date_of t \<le> date_of t'" using assms(1) by (rule date_of_mono)
  moreover have "date_of t' \<le> date_of (combine_max (date_of t))"
    using assms(2) by (rule date_of_mono)
  ultimately show ?thesis by (simp add: date_of_combine_max)
qed

lemma hours_between_nonneg: "0 \<le> hours_between (combine_max (date_of t)) t"
  using le_combine_max [of t] by (simp add: hours_between_def)

lemma timedelta_within_day:
  assumes "0 < r" and "r \<le> hours_between (combine_max (date_of t)) t"
  shows "date_of (t + timedelta_hours r) = date_of t"
proof -
  have "r * US_PER_HOUR \<le> of_int (combine_max (date_of t) - t)"
    using assms(2) by (simp add: hours_between_def US_PER_HOUR_def field_simps)
  then have "timedelta_hours r \<le> combine_max (date_of t) - t"
    unfolding timedelta_hours_def by (rule py_round_le)
  moreover have "0 \<le> timedelta_hours r"
    unfolding timedelta_hours_def using assms(1)
    by (intro py_round_nonneg) (simp add: US_PER_HOUR_def)
  ultimately show ?thesis
    by (intro date_of_within_day) simp_all
qed

subsection \<open>One round of the day-splitting loop\<close>

lemma split_loop_done:
  "r \<le> 0 \<Longrightarrow> split_loop st loc t l ls r = (t, l, ls)"
  by (simp add: split_loop.simps [of st loc t l ls r])

lemma split_loop_fits:
  assumes "0 < r" and "r \<le> hours_between (combine_max (date_of t)) t"
  shows "split_loop st loc t l ls r
         = (t + timedelta_hours r,
            add_entry l \<lparr>status = st, start_time = t, end_time = t + timedelta_hours r,
                         entry_location = loc, entry_duration = r\<rparr>,
            ls)"
  using assms by (simp add: split_loop.simps [of st loc t l ls r] Let_def split_loop_done)

lemma split_loop_next:
  assumes "0 < r" and "\<not> r \<le> hours_between (combine_max (date_of t)) t"
  shows "split_loop st loc t l ls r
         = split_loop st loc (combine_min (date_of t + 1))
             (new_DailyLog (date_of (combine_min (date_of t + 1))))
             (ls @ [add_entry l
                      \<lparr>status = st, start_time = t, end_time = combine_max (date_of t),
                       entry_location = loc,
                       entry_duration = hours_between (combine_max (date_of t)) t\<rparr>])
             (r - hours_between (combine_max (date_of t)) t)"
  using assms by (simp add: split_loop.simps [of st loc t l ls r] Let_def)

subsection \<open>Entries within one day\<close>

lemma logs_same_day_append:
  "logs_same_day (a @ b) = (logs_same_day a \<and> logs_same_day b)"
  by (simp add: logs_same_day_def)

lemma logs_same_day_Cons:
  "logs_same_day (x # y # ys) = (logs_same_day [x] \<and> logs_same_day (y # ys))"
  by (simp add: logs_same_day_def)

lemma logs_same_day_add_entry:
  "logs_same_day [add_entry l e] = (logs_same_day [l] \<and> same_day e)"
  by (simp add: logs_same_day_def entries_add_entry)

lemma logs_same_day_new: "logs_same_day [new_DailyLog d]"
  by (simp add: logs_same_day_def new_DailyLog_def)

lemma split_loop_same_day:
  "logs_same_day (state_logs (t, l, ls))
   \<Longrightarrow> logs_same_day (state_logs (split_loop st loc t l ls r))"
proof (induction st loc t l ls r rule: split_loop.induct)
  case (1 st loc t l ls r)
  let ?tid = "hours_between (combine_max (date_of t)) t"
  show ?case
  proof (cases "0 < r")
    case False
    then show ?thesis using "1.prems" by (simp add: split_loop_done)
  next
    case pos: True
    show ?thesis
    proof (cases "r \<le> ?tid")
      case True
      have "same_day \<lparr>status = st, start_time = t, end_time = t + timedelta_hours r,
                       entry_location = loc, entry_duration = r\<rparr>"
        using timedelta_within_day [OF pos True] by (simp add: same_day_def)
      then show ?thesis
        using "1.prems"
        by (simp add: split_loop_fits [OF pos True] logs_same_day_append
              logs_same_day_Cons logs_same_day_add_entry)
    next
      case False
      have sd: "same_day \<lparr>status = st, start_time = t, end_time = combine_max (date_of t),
                           entry_location = loc, entry_duration = ?tid\<rparr>"
        by (simp add: same_day_def date_of_combine_max)
      have "logs_same_day (state_logs
              (combine_min (date_of t + 1),
               new_DailyLog (date_of (combine_min (date_of t + 1))),
               ls @ [add_entry l
                       \<lparr>status = st, start_time = t, end_time = combine_max (date_of t),
                        entry_location = loc, entry_duration = ?tid\<rparr>]))"
        using "1.prems" sd
        by (simp add: logs_same_day_append logs_same_day_Cons logs_same_day_add_entry
              logs_same_day_new)
      then show ?thesis
        unfolding split_loop_next [OF pos False]
        by (rule "1.IH"(2) [OF pos refl refl False])
    qed
  qed
qed

lemma add_driving_entry_same_day:
  assumes "logs_same_day (state_logs (t, l, ls))"
  shows "logs_same_day (state_logs (add_driving_entry t l ls d loc))"
proof (cases "date_of t \<noteq> date_of (t + timedelta_hours d)")
  case True
  then show ?thesis
    using split_loop_same_day [OF assms, of DRIVING loc d]
    by (simp add: add_driving_entry_def Let_def)
next
  case False
  then have "same_day \<lparr>status = DRIVING, start_time = t, end_time = t + timedelta_hours d,
                        entry_location = loc, entry_duration = d\<rparr>"
    by (simp add: same_day_def)
  then show ?thesis
    using assms False
    by (simp add: add_driving_entry_def Let_def logs_same_day_append logs_same_day_add_entry)
qed

lemma add_stop_entry_same_day:
  assumes "logs_same_day (state_logs (t, l, ls))"
  shows "logs_same_day (state_logs (add_stop_entry t l ls stop))"
proof (cases "date_of t \<noteq> date_of (t + timedelta_hours (stop_duration stop))")
  case True
  then show ?thesis
    using split_loop_same_day [OF assms]
    by (simp add: add_stop_entry_def Let_def)
next
  case False
  then have "same_day \<lparr>status = st, start_time = t,
                        end_time = t + timedelta_hours (stop_duration stop),
                        entry_location = loc, entry_duration = d\<rparr>" for st loc d
    by (simp add: same_day_def)
  then show ?thesis
    using assms False
    by (simp add: add_stop_entry_def Let_def logs_same_day_append logs_same_day_add_entry)
qed

lemma generate_logs_loop_same_day:
  "logs_same_day (state_logs state)
   \<Longrightarrow> logs_same_day (state_logs (generate_logs_loop route_d prev ss state))"
proof (induction ss arbitrary: prev state)
  case Nil
  then show ?case by simp
next
  case (Cons stop rest)
  obtain t l ls where state: "state = (t, l, ls)"
    by (cases state) auto
  define drive_time where
    "drive_time = (case prev of None \<Rightarrow> 0
                   | Some prev_stop \<Rightarrow> calculate_drive_time_between_stops prev_stop stop route_d)"
  define state1 where
    "state1 = (if drive_time > 0
               then add_driving_entry t l ls drive_time
                      (case prev of Some prev_stop \<Rightarrow> address (location prev_stop)
                       | None \<Rightarrow> ''Start Location'')
               else (t, l, ls))"
  obtain t1 l1 ls1 where state1_eq: "state1 = (t1, l1, ls1)"
    by (cases state1) auto
  have "logs_same_day (state_logs state1)"
    unfolding state1_def
    using Cons.prems add_driving_entry_same_day [of t l ls] by (simp add: state)
  then have "logs_same_day (state_logs (add_stop_entry t1 l1 ls1 stop))"
    unfolding state1_eq by (rule add_stop_entry_same_day)
  then have "logs_same_day (state_logs
               (generate_logs_loop route_d (Some stop) rest (add_stop_entry t1 l1 ls1 stop)))"
    by (rule Cons.IH)
  moreover have "generate_logs_loop route_d prev (stop # rest) state
                 = generate_logs_loop route_d (Some stop) rest (add_stop_entry t1 l1 ls1 stop)"
    using state1_eq
    by (simp add: state Let_def drive_time_def [symmetric] state1_def [symmetric])
  ultimately show ?case by simp
qed

lemma generate_logs_same_day: "logs_same_day (generate_logs now rd trip)"
proof -
  define state where
    "state = generate_logs_loop (route rd) None
               (merge_and_sort_stops (stops rd) (fuel_stops rd))
               (now, new_DailyLog (date_of now), [])"
  obtain t l ls where state_eq: "state = (t, l, ls)"
    by (cases state) auto
  have "logs_same_day (state_logs (now, new_DailyLog (date_of now), []))"
    by (simp add: logs_same_day_new)
  then have "logs_same_day (state_logs state)"
    unfolding state_def by (rule generate_logs_loop_same_day)
  then have "logs_same_day (ls @ [l])"
    by (simp add: state_eq)
  moreover have "generate_logs now rd trip = (if entries l \<noteq> [] then ls @ [l] else ls)"
    using state_eq by (simp add: generate_logs_def Let_def state_def [symmetric])
  ultimately show ?thesis
    by (simp add: logs_same_day_append)
qed

text \<open>
  Claim C5.  Every entry of every daily log that \<^verbatim>\<open>generate_logs\<close> returns starts and
  ends on the same calendar date, for every start time, route, stop list and fuel-stop
  list.
\<close>

theorem entries_within_one_day:
  "\<forall>log \<in> set (generate_logs now rd trip). \<forall>e \<in> set (entries log).
     date_of (start_time e) = date_of (end_time e)"
  using generate_logs_same_day [of now rd trip]
  by (simp add: logs_same_day_def list_all_iff same_day_def)

lemma timedelta_hours_10: "timedelta_hours 10 = 36000000000"
  by (simp add: timedelta_hours_def py_round_def US_PER_HOUR_def)

text \<open>
  A rest of ten hours that starts at 23:00 is split at midnight into two entries, one
  in each of two daily logs.
\<close>

lemma night_rest_logs:
  "map (\<lambda>l. map (\<lambda>e. (start_time e, end_time e, entry_duration e)) (entries l))
     (generate_logs 82800000000
        \<lparr>route = \<lparr>distance = 300, duration = 5, coordinates = [(- 74, 40)]\<rparr>,
         stops = [\<lparr>stop_type = ''rest'',
                   location = \<lparr>address = ''Rest Area'', latitude = 40, longitude = - 74\<rparr>,
                   time = 82800000000, stop_duration = 10,
                   description = ''Mandatory 10-hour rest period''\<rparr>],
         fuel_stops = []\<rparr>
        \<lparr>current_location = ''New York, NY'', pickup_location = ''Philadelphia, PA'',
         dropoff_location = ''Atlanta, GA'', cycle_used = 10\<rparr>)
   = [[(82800000000, 86399999999, 3599999999 / 3600000000)],
      [(86400000000, 118800000001, 32400000001 / 3600000000)]]"
proof -
  have d0: "date_of 82800000000 = 0"
    by (simp add: date_of_def US_PER_DAY_def)
  have d1: "date_of 118800000000 = 1"
    by (simp add: date_of_def US_PER_DAY_def)
  have h0: "hours_between (combine_max 0) 82800000000 = 3599999999 / 3600000000"
    by (simp add: hours_between_def combine_max_def US_PER_DAY_def)
  have m1: "combine_min 1 = 86400000000"
    by (simp add: combine_min_def US_PER_DAY_def)
  have d2: "date_of 86400000000 = 1"
    by (simp add: date_of_def US_PER_DAY_def)
  have h1: "hours_between (combine_max 1) 86400000000 = 86399999999 / 3600000000"
    by (simp add: hours_between_def combine_max_def US_PER_DAY_def)
  have td: "timedelta_hours (32400000001 / 3600000000) = 32400000001"
    by (simp add: timedelta_hours_def py_round_def US_PER_HOUR_def)
  have step2: "split_loop st loc 86400000000 l ls (32400000001 / 3600000000)
               = (118800000001,
                  add_entry l \<lparr>status = st, start_time = 86400000000, end_time = 118800000001,
                               entry_location = loc,
                               entry_duration = 32400000001 / 3600000000\<rparr>,
                  ls)" for st loc l ls
    using split_loop_fits [of "32400000001 / 3600000000" 86400000000 st loc l ls]
    by (simp add: d2 h1 td)
  have step1: "split_loop st loc 82800000000 l ls 10
               = (118800000001,
                  add_entry (new_DailyLog 1)
                    \<lparr>status = st, start_time = 86400000000, end_time = 118800000001,
                     entry_location = loc, entry_duration = 32400000001 / 3600000000\<rparr>,
                  ls @ [add_entry l
                          \<lparr>status = st, start_time = 82800000000, end_time = combine_max 0,
                           entry_location = loc,
                           entry_duration = 3599999999 / 3600000000\<rparr>])" for st loc l ls
    using split_loop_next [of 10 82800000000 st loc l ls]
    by (simp add: d0 h0 m1 d2 step2)
  show ?thesis
    by (simp add: generate_logs_def merge_and_sort_stops_def Let_def add_stop_entry_def
          timedelta_hours_10 d0 d1 step1 entries_add_entry new_DailyLog_def
          combine_max_def US_PER_DAY_def)
qed

theorem entries_within_one_day_witness:
  "generate_logs 82800000000
        \<lparr>route = \<lparr>distance = 300, duration = 5, coordinates = [(- 74, 40)]\<rparr>,
         stops = [\<lparr>stop_type = ''rest'',
                   location = \<lparr>address = ''Rest Area'', latitude = 40, longitude = - 74\<rparr>,
                   time = 82800000000, stop_duration = 10,
                   description = ''Mandatory 10-hour rest period''\<rparr>],
         fuel_stops = []\<rparr>
        \<lparr>current_location = ''New York, NY'', pickup_location = ''Philadelphia, PA'',
         dropoff_location = ''Atlanta, GA'', cycle_used = 10\<rparr> \<noteq> []
   \<and> list_all (\<lambda>l. list_all (\<lambda>e. date_of (start_time e) = date_of (end_time e)) (entries l))
       (generate_logs 82800000000
        \<lparr>route = \<lparr>distance = 300, duration = 5, coordinates = [(- 74, 40)]\<rparr>,
         stops = [\<lparr>stop_type = ''rest'',
                   location = \<lparr>address = ''Rest Area'', latitude = 40, longitude = - 74\<rparr>,
                   time = 82800000000, stop_duration = 10,
                   description = ''Mandatory 10-hour rest period''\<rparr>],
         fuel_stops = []\<rparr>
        \<lparr>current_location = ''New York, NY'', pickup_location = ''Philadelphia, PA'',
         dropoff_location = ''Atlanta, GA'', cycle_used = 10\<rparr>)"
proof -
  let ?logs = "generate_logs 82800000000
        \<lparr>route = \<lparr>distance = 300, duration = 5, coordinates = [(- 74, 40)]\<rparr>,
         stops = [\<lparr>stop_type = ''rest'',
                   location = \<lparr>address = ''Rest Area'', latitude = 40, longitude = - 74\<rparr>,
                   time = 82800000000, stop_duration = 10,
                   description = ''Mandatory 10-hour rest period''\<rparr>],
         fuel_stops = []\<rparr>
        \<lparr>current_location = ''New York, NY'', pickup_location = ''Philadelphia, PA'',
         dropoff_location = ''Atlanta, GA'', cycle_used = 10\<rparr>"
  have "map (\<lambda>l. map (\<lambda>e. (start_time e, end_time e, entry_duration e)) (entries l)) ?logs \<noteq> []"
    unfolding night_rest_logs by simp
  then have "?logs \<noteq> []" by auto
  moreover have "\<forall>l \<in> set ?logs. \<forall>e \<in> set (entries l).
                   date_of (start_time e) = date_of (end_time e)"
    by (rule entries_within_one_day)
  ultimately show ?thesis by (simp add: list_all_iff)
qed

subsection \<open>Logged hours\<close>

lemma logged_hours_append: "logged_hours (a @ b) = logged_hours a + logged_hours b"
  by (simp add: logged_hours_def)

lemma logged_hours_Cons:
  "logged_hours (x # y # ys) = logged_hours [x] + logged_hours (y # ys)"
  by (simp add: logged_hours_def)

lemma logged_hours_add_entry:
  "logged_hours [add_entry l e] = logged_hours [l] + entry_duration e"
  by (simp add: logged_hours_def entries_add_entry)

lemma logged_hours_new: "logged_hours [new_DailyLog d] = 0"
  by (simp add: logged_hours_def new_DailyLog_def)

lemma logged_hours_Nil: "logged_hours [] = 0"
  by (simp add: logged_hours_def)

lemma split_loop_hours:
  "logged_hours (state_logs (split_loop st loc t l ls r))
   = logged_hours (state_logs (t, l, ls)) + max r 0"
proof (induction st loc t l ls r rule: split_loop.induct)
  case (1 st loc t l ls r)
  let ?tid = "hours_between (combine_max (date_of t)) t"
  show ?case
  proof (cases "0 < r")
    case False
    then show ?thesis by (simp add: split_loop_done)
  next
    case pos: True
    show ?thesis
    proof (cases "r \<le> ?tid")
      case True
      show ?thesis
        using pos
        by (simp add: split_loop_fits [OF pos True] logged_hours_append logged_hours_add_entry)
    next
      case False
      have "logged_hours (state_logs (split_loop st loc t l ls r))
            = logged_hours (state_logs
                (combine_min (date_of t + 1),
                 new_DailyLog (date_of (combine_min (date_of t + 1))),
                 ls @ [add_entry l
                         \<lparr>status = st, start_time = t, end_time = combine_max (date_of t),
                          entry_location = loc, entry_duration = ?tid\<rparr>]))
              + max (r - ?tid) 0"
        unfolding split_loop_next [OF pos False]
        by (rule "1.IH"(2) [OF pos refl refl False])
      also have "\<dots> = logged_hours (state_logs (t, l, ls)) + ?tid + (r - ?tid)"
        using False
        by (simp add: logged_hours_append logged_hours_Cons logged_hours_add_entry
              logged_hours_new)
      finally show ?thesis using pos by simp
    qed
  qed
qed

lemma add_driving_entry_hours:
  assumes "0 \<le> d"
  shows "logged_hours (state_logs (add_driving_entry t l ls d loc))
         = logged_hours (state_logs (t, l, ls)) + d"
  using assms split_loop_hours [of DRIVING loc t l ls d]
  by (simp add: add_driving_entry_def Let_def logged_hours_append logged_hours_add_entry)

lemma add_stop_entry_hours:
  assumes "0 \<le> stop_duration stop"
  shows "logged_hours (state_logs (add_stop_entry t l ls stop))
         = logged_hours (state_logs (t, l, ls)) + stop_duration stop"
  using assms split_loop_hours [of _ "address (location stop)" t l ls "stop_duration stop"]
  by (simp add: add_stop_entry_def Let_def logged_hours_append logged_hours_add_entry)

lemma calculate_drive_time_between_stops_nonneg:
  "0 \<le> duration route_d \<Longrightarrow> 0 \<le> calculate_drive_time_between_stops p s route_d"
  by (simp add: calculate_drive_time_between_stops_def Let_def)

lemma generate_logs_loop_hours:
  assumes "0 \<le> duration route_d"
  shows "list_all (\<lambda>s. 0 \<le> stop_duration s) ss
   \<Longrightarrow> logged_hours (state_logs (generate_logs_loop route_d prev ss state))
       = logged_hours (state_logs state)
         + sum_list (leg_drive_times route_d (case prev of None \<Rightarrow> ss | Some p \<Rightarrow> p # ss))
         + sum_list (map stop_duration ss)"
proof (induction ss arbitrary: prev state)
  case Nil
  show ?case by (cases prev) simp_all
next
  case (Cons stop rest)
  obtain t l ls where state: "state = (t, l, ls)"
    by (cases state) auto
  define drive_time where
    "drive_time = (case prev of None \<Rightarrow> 0
                   | Some prev_stop \<Rightarrow> calculate_drive_time_between_stops prev_stop stop route_d)"
  define state1 where
    "state1 = (if drive_time > 0
               then add_driving_entry t l ls drive_time
                      (case prev of Some prev_stop \<Rightarrow> address (location prev_stop)
                       | None \<Rightarrow> ''Start Location'')
               else (t, l, ls))"
  obtain t1 l1 ls1 where state1_eq: "state1 = (t1, l1, ls1)"
    by (cases state1) auto
  have dt0: "0 \<le> drive_time"
    unfolding drive_time_def
    by (cases prev) (simp_all add: calculate_drive_time_between_stops_nonneg [OF assms])
  have h1: "logged_hours (state_logs state1) = logged_hours (state_logs state) + drive_time"
  proof (cases "drive_time > 0")
    case True
    then show ?thesis
      unfolding state1_def state by (simp add: add_driving_entry_hours)
  next
    case False
    with dt0 have "drive_time = 0" by simp
    then show ?thesis
      unfolding state1_def state by simp
  qed
  have sd: "0 \<le> stop_duration stop" and rest: "list_all (\<lambda>s. 0 \<le> stop_duration s) rest"
    using Cons.prems by simp_all
  have h2: "logged_hours (state_logs (add_stop_entry t1 l1 ls1 stop))
            = logged_hours (state_logs state) + drive_time + stop_duration stop"
    using add_stop_entry_hours [OF sd, of t1 l1 ls1] h1 by (simp add: state1_eq)
  have legs: "sum_list (leg_drive_times route_d
                 (case prev of None \<Rightarrow> stop # rest | Some p \<Rightarrow> p # stop # rest))
              = drive_time + sum_list (leg_drive_times route_d (stop # rest))"
    unfolding drive_time_def by (cases prev) simp_all
  have unfold: "generate_logs_loop route_d prev (stop # rest) state
                = generate_logs_loop route_d (Some stop) rest (add_stop_entry t1 l1 ls1 stop)"
    using state1_eq
    by (simp add: state Let_def drive_time_def [symmetric] state1_def [symmetric])
  show ?case
    unfolding unfold Cons.IH [OF rest] h2 legs by simp
qed

lemma generate_logs_hours:
  assumes "0 \<le> duration (route rd)"
    and "list_all (\<lambda>s. 0 \<le> stop_duration s) (merge_and_sort_stops (stops rd) (fuel_stops rd))"
  shows "logged_hours (generate_logs now rd trip)
         = sum_list (leg_drive_times (route rd) (merge_and_sort_stops (stops rd) (fuel_stops rd)))
           + sum_list (map stop_duration (merge_and_sort_stops (stops rd) (fuel_stops rd)))"
proof -
  let ?all = "merge_and_sort_stops (stops rd) (fuel_stops rd)"
  define state where
    "state = generate_logs_loop (route rd) None ?all (now, new_DailyLog (date_of now), [])"
  obtain t l ls where state_eq: "state = (t, l, ls)"
    by (cases state) auto
  have "logged_hours (state_logs state)
        = sum_list (leg_drive_times (route rd) ?all) + sum_list (map stop_duration ?all)"
    unfolding state_def generate_logs_loop_hours [OF assms]
    by (simp add: logged_hours_new)
  moreover have "generate_logs now rd trip = (if entries l \<noteq> [] then ls @ [l] else ls)"
    using state_eq by (simp add: generate_logs_def Let_def state_def [symmetric])
  moreover have "logged_hours (if entries l \<noteq> [] then ls @ [l] else ls)
                 = logged_hours (ls @ [l])"
    by (simp add: logged_hours_def)
  ultimately show ?thesis
    by (simp add: state_eq)
qed

lemma sum_merge_and_sort_stops:
  assumes "list_all (\<lambda>s. stop_type s \<in> set [''pickup'', ''rest'', ''dropoff'']) ss"
  shows "sum_list (map stop_duration (merge_and_sort_stops ss fs))
         = sum_list (map stop_duration ss) + sum_list (map stop_duration fs)"
proof -
  have "sum_list (map stop_duration (filter (\<lambda>s. stop_type s = ''pickup'') ss))
        + sum_list (map stop_duration (filter (\<lambda>s. stop_type s = ''rest'') ss))
        + sum_list (map stop_duration (filter (\<lambda>s. stop_type s = ''dropoff'') ss))
        = sum_list (map stop_duration ss)"
    using assms by (induction ss) auto
  then show ?thesis
    by (simp add: merge_and_sort_stops_def)
qed

text \<open>
  Claim C7.  For every route of non-negative duration and all stops of non-negative
  duration, where the list \<^verbatim>\<open>'stops'\<close> holds pickup, rest and dropoff stops (as the
  planner's does), the durations of all entries of all daily logs that
  \<^verbatim>\<open>generate_logs\<close> returns add up to the sum of the apportioned driving durations of
  the legs plus the sum of the durations of all stops and fuel stops.  With exact
  arithmetic the two sides are equal.
\<close>

theorem day_splitting_preserves_time:
  assumes "0 \<le> duration (route rd)"
    and "\<forall>s \<in> set (stops rd @ fuel_stops rd). 0 \<le> stop_duration s"
    and "\<forall>s \<in> set (stops rd). stop_type s \<in> set [''pickup'', ''rest'', ''dropoff'']"
  shows "logged_hours (generate_logs now rd trip)
         = sum_list (leg_drive_times (route rd) (merge_and_sort_stops (stops rd) (fuel_stops rd)))
           + (sum_list (map stop_duration (stops rd))
              + sum_list (map stop_duration (fuel_stops rd)))"
proof -
  have "list_all (\<lambda>s. 0 \<le> stop_duration s) (merge_and_sort_stops (stops rd) (fuel_stops rd))"
    using assms(2) by (auto simp: merge_and_sort_stops_def list_all_iff)
  moreover have "list_all (\<lambda>s. stop_type s \<in> set [''pickup'', ''rest'', ''dropoff'']) (stops rd)"
    using assms(3) by (simp add: list_all_iff)
  ultimately show ?thesis
    using generate_logs_hours [OF assms(1), of now trip] sum_merge_and_sort_stops [of "stops rd" "fuel_stops rd"]
    by simp
qed

theorem day_splitting_preserves_time_witness:
  "logged_hours
     (generate_logs 82800000000
        \<lparr>route = \<lparr>distance = 300, duration = 5, coordinates = [(- 74, 40), (- 75, 39)]\<rparr>,
         stops = [\<lparr>stop_type = ''pickup'',
                   location = \<lparr>address = ''Pickup Location'', latitude = 39, longitude = - 75\<rparr>,
                   time = 82800000000, stop_duration = 1, description = ''Pickup cargo''\<rparr>,
                  \<lparr>stop_type = ''dropoff'',
                   location = \<lparr>address = ''Dropoff Location'', latitude = 39, longitude = - 75\<rparr>,
                   time = 106036363636, stop_duration = 1, description = ''Deliver cargo''\<rparr>],
         fuel_stops = []\<rparr>
        \<lparr>current_location = ''New York, NY'', pickup_location = ''Philadelphia, PA'',
         dropoff_location = ''Atlanta, GA'', cycle_used = 10\<rparr>)
   = 1 / 5 + (1 + 1)"
  using day_splitting_preserves_time
          [of "\<lparr>route = \<lparr>distance = 300, duration = 5, coordinates = [(- 74, 40), (- 75, 39)]\<rparr>,
         stops = [\<lparr>stop_type = ''pickup'',
                   location = \<lparr>address = ''Pickup Location'', latitude = 39, longitude = - 75\<rparr>,
                   time = 82800000000, stop_duration = 1, description = ''Pickup cargo''\<rparr>,
                  \<lparr>stop_type = ''dropoff'',
                   location = \<lparr>address = ''Dropoff Location'', latitude = 39, longitude = - 75\<rparr>,
                   time = 106036363636, stop_duration = 1, description = ''Deliver cargo''\<rparr>],
         fuel_stops = []\<rparr>" 82800000000
        "\<lparr>current_location = ''New York, NY'', pickup_location = ''Philadelphia, PA'',
         dropoff_location = ''Atlanta, GA'', cycle_used = 10\<rparr>"]
  by (simp add: merge_and_sort_stops_def calculate_drive_time_between_stops_def Let_def)

end
